theory Spec2Isabelle
  imports Main "HOL-Library.Word"
begin

unbundle bit_operations_syntax

section \<open>The Samsung S5P HDMI transmitter driver\<close>

text \<open>
  A shallow embedding of \<^verbatim>\<open>drivers/media/platform/s5p-tv/hdmi_drv.c\<close> (Linux 3.16.37).
  Every function of the driver that touches the hardware takes the machine (the device
  structure together with the log of everything the driver has done to the outside world)
  and returns the new machine. What the outside world answers (the value a register read
  returns, the result of a call into the PHY or the MHL subdevice, of the regulator
  framework, of the runtime-PM core) is given by an environment, which may make each answer
  depend on the whole log so far. The theorems hold for every environment.

  Log messages (\<^verbatim>\<open>dev_dbg\<close>, \<^verbatim>\<open>dev_err\<close>, \<^verbatim>\<open>pr_info\<close>) are left out of the log.
  The register dump \<^verbatim>\<open>hdmi_dumpregs\<close>, which reads registers only to print them in a
  debug build, is one entry of the log.
\<close>

type_synonym u8 = "8 word"
type_synonym u32 = "32 word"

subsection \<open>Declarations that live outside the file\<close>

text \<open>
  \<^verbatim>\<open>struct v4l2_dv_timings\<close> is declared in the V4L2 headers. The driver reads and writes
  one member of it, \<^verbatim>\<open>bt.flags\<close>; all the other members are kept together, uninterpreted.
\<close>

record 'd v4l2_dv_timings =
  bt_flags :: u32
  bt_rest :: 'd

text \<open>\<^verbatim>\<open>struct v4l2_mbus_framefmt\<close>, the members the driver sets after zeroing the structure.\<close>

record v4l2_mbus_framefmt =
  fmt_width :: u32
  fmt_height :: u32
  fmt_code :: u32
  fmt_field :: u32
  fmt_colorspace :: u32

text \<open>
  \<^verbatim>\<open>struct v4l2_dv_timings_cap\<close>: the members the driver sets, and the rest (the pixel-clock
  range, which the PHY fills in).
\<close>

record 'c v4l2_dv_timings_cap =
  cap_pad :: u32
  cap_type :: u32
  cap_min_width :: u32
  cap_max_width :: u32
  cap_min_height :: u32
  cap_max_height :: u32
  cap_standards :: u32
  cap_capabilities :: u32
  cap_rest :: 'c

text \<open>
  The constants, macros and helper functions that the driver takes from headers and from
  the V4L2 core are parameters of the model:
  \<^item> \<open>macro\<close> gives the value of a 32-bit macro by its name: the register offsets and bit
    masks of \<^verbatim>\<open>regs-hdmi.h\<close> and the V4L2 flag and enumeration constants;
  \<^item> \<open>EIO\<close>, \<open>EINVAL\<close>, \<open>ENODEV\<close> are the error numbers;
  \<^item> \<open>IS_ERR_VALUE\<close> is the macro of \<^verbatim>\<open>linux/err.h\<close>;
  \<^item> \<open>V4L2_DV_BT_CEA\<close> gives the descriptor that the initialiser macro
    \<^verbatim>\<open>V4L2_DV_BT_CEA_<name>\<close> expands to;
  \<^item> \<open>v4l2_match_dv_timings\<close> is the comparison function of the V4L2 core.
\<close>

record 'd decls =
  macro :: "string \<Rightarrow> u32"
  EIO :: int
  EINVAL :: int
  ENODEV :: int
  IS_ERR_VALUE :: "int \<Rightarrow> bool"
  V4L2_DV_BT_CEA :: "string \<Rightarrow> 'd v4l2_dv_timings"
  v4l2_match_dv_timings :: "'d v4l2_dv_timings \<Rightarrow> 'd v4l2_dv_timings \<Rightarrow> nat \<Rightarrow> bool"

subsection \<open>The driver's data\<close>

text \<open>\<^verbatim>\<open>struct hdmi_pulse\<close>; the member \<^verbatim>\<open>end\<close> is called \<open>endp\<close> here.\<close>

record hdmi_pulse =
  beg :: u32
  endp :: u32

text \<open>
  \<^verbatim>\<open>struct hdmi_timings\<close>; the two-element arrays \<^verbatim>\<open>vact[2]\<close> and \<^verbatim>\<open>vsyn[2]\<close> are the
  members \<open>vact_0\<close>, \<open>vact_1\<close> and \<open>vsyn_0\<close>, \<open>vsyn_1\<close>.
\<close>

record hdmi_timings =
  hact :: hdmi_pulse
  hsyn_pol :: u32
  hsyn :: hdmi_pulse
  interlaced :: u32
  vact_0 :: hdmi_pulse
  vact_1 :: hdmi_pulse
  vsyn_pol :: u32
  vsyn_off :: u32
  vsyn_0 :: hdmi_pulse
  vsyn_1 :: hdmi_pulse

text \<open>Clock, regulator and subdevice handles are pointers; the model keeps their values.\<close>

type_synonym clk = nat
type_synonym v4l2_subdev = nat

record hdmi_resources =
  hdmi :: clk
  sclk_hdmi :: clk
  sclk_pixel :: clk
  sclk_hdmiphy :: clk
  hdmiphy :: clk
  regul_bulk :: nat
  regul_count :: int

text \<open>
  \<^verbatim>\<open>struct hdmi_device\<close>. A pointer that may be \<^verbatim>\<open>NULL\<close> is an option. The members that
  only link the device into the driver framework (\<^verbatim>\<open>dev\<close>, \<^verbatim>\<open>sd\<close>, \<^verbatim>\<open>v4l2_dev\<close>) are
  left out.
\<close>

record 'd hdmi_device =
  regs :: u32
  irq :: nat
  phy_sd :: "v4l2_subdev option"
  mhl_sd :: "v4l2_subdev option"
  cur_conf :: "hdmi_timings option"
  cur_conf_dirty :: int
  cur_timings :: "'d v4l2_dv_timings"
  res :: hdmi_resources

subsection \<open>The outside world\<close>

text \<open>The operation that \<^verbatim>\<open>v4l2_subdev_call\<close> invokes on a subdevice, with its argument.\<close>

datatype 'd sd_op =
    Video_s_dv_timings "'d v4l2_dv_timings"
  | Video_s_stream int
  | Core_s_power int
  | Pad_dv_timings_cap

datatype 'd event =
    Readl u32
  | Writel u32 u32
  | Writeb u32 u8
  | Mdelay nat
  | Subdev_call v4l2_subdev "'d sd_op"
  | Clk_enable clk
  | Clk_disable clk
  | Clk_set_parent clk clk
  | Regulator_bulk_enable int nat
  | Regulator_bulk_disable int nat
  | Pm_runtime_get_sync
  | Pm_runtime_put_sync
  | Dumpregs string

text \<open>
  What the runtime-PM core does inside \<^verbatim>\<open>pm_runtime_get_sync\<close> or \<^verbatim>\<open>pm_runtime_put_sync\<close>:
  it returns a value without entering the driver, or it runs the driver's callback
  (\<^verbatim>\<open>hdmi_runtime_resume\<close> for get, \<^verbatim>\<open>hdmi_runtime_suspend\<close> for put) and returns its result.
\<close>

datatype pm_result = Pm_return int | Pm_callback

record 'd env =
  readl_val :: "'d event list \<Rightarrow> u32 \<Rightarrow> u32"
  subdev_ret :: "'d event list \<Rightarrow> v4l2_subdev \<Rightarrow> 'd sd_op \<Rightarrow> int"
  regulator_ret :: "'d event list \<Rightarrow> int"
  pm_core :: "'d event list \<Rightarrow> pm_result"

record 'd machine =
  hdev :: "'d hdmi_device"
  io :: "'d event list"

text \<open>A \<^verbatim>\<open>NULL\<close> pointer dereference ends the call without a result.\<close>

datatype fault = Null_dereference

text \<open>
  Modelled from the spec: the register port (\<^verbatim>\<open>readl\<close>, \<^verbatim>\<open>writel\<close>, \<^verbatim>\<open>writeb\<close>), the
  delay \<^verbatim>\<open>mdelay\<close>, and the clock and regulator operations are kernel services that are not
  part of the file. The spec lists them as capabilities handed to the driver. Each call is
  recorded in the log, with its arguments; a call that has a result takes it from the
  environment.
\<close>

definition emit :: "'d event \<Rightarrow> 'd machine \<Rightarrow> 'd machine" where
  "emit e m = m\<lparr>io := io m @ [e]\<rparr>"

definition readl :: "'d env \<Rightarrow> u32 \<Rightarrow> 'd machine \<Rightarrow> u32 \<times> 'd machine" where
  "readl E addr m = (readl_val E (io m) addr, emit (Readl addr) m)"

definition writel :: "u32 \<Rightarrow> u32 \<Rightarrow> 'd machine \<Rightarrow> 'd machine" where
  "writel v addr m = emit (Writel addr v) m"

definition writeb :: "u8 \<Rightarrow> u32 \<Rightarrow> 'd machine \<Rightarrow> 'd machine" where
  "writeb v addr m = emit (Writeb addr v) m"

definition mdelay :: "nat \<Rightarrow> 'd machine \<Rightarrow> 'd machine" where
  "mdelay n m = emit (Mdelay n) m"

definition clk_enable :: "clk \<Rightarrow> 'd machine \<Rightarrow> 'd machine" where
  "clk_enable c m = emit (Clk_enable c) m"

definition clk_disable :: "clk \<Rightarrow> 'd machine \<Rightarrow> 'd machine" where
  "clk_disable c m = emit (Clk_disable c) m"

definition clk_set_parent :: "clk \<Rightarrow> clk \<Rightarrow> 'd machine \<Rightarrow> 'd machine" where
  "clk_set_parent c p m = emit (Clk_set_parent c p) m"

definition regulator_bulk_enable ::
  "'d env \<Rightarrow> int \<Rightarrow> nat \<Rightarrow> 'd machine \<Rightarrow> int \<times> 'd machine" where
  "regulator_bulk_enable E n b m = (regulator_ret E (io m), emit (Regulator_bulk_enable n b) m)"

definition regulator_bulk_disable :: "int \<Rightarrow> nat \<Rightarrow> 'd machine \<Rightarrow> 'd machine" where
  "regulator_bulk_disable n b m = emit (Regulator_bulk_disable n b) m"

text \<open>
  Modelled from the spec: the macro \<^verbatim>\<open>v4l2_subdev_call\<close> is defined in
  \<^verbatim>\<open>media/v4l2-subdev.h\<close>, which is not part of the file. The spec describes it as a
  dispatch on a capability that may be absent, the absence being checked at the call: a
  \<^verbatim>\<open>NULL\<close> subdevice gives \<^verbatim>\<open>-ENODEV\<close> and nothing is called; otherwise the call is made
  and its result (also that of an operation the subdevice does not implement) is the
  environment's answer. The callee is taken not to write to the driver's structure.
\<close>

definition v4l2_subdev_call ::
  "'d decls \<Rightarrow> 'd env \<Rightarrow> v4l2_subdev option \<Rightarrow> 'd sd_op \<Rightarrow> 'd machine \<Rightarrow> int \<times> 'd machine" where
  "v4l2_subdev_call D E sd f m =
     (case sd of
        None \<Rightarrow> (- ENODEV D, m)
      | Some s \<Rightarrow> (subdev_ret E (io m) s f, emit (Subdev_call s f) m))"

subsection \<open>Register access\<close>

definition hdmi_write :: "u32 \<Rightarrow> u32 \<Rightarrow> 'd machine \<Rightarrow> 'd machine" where
  "hdmi_write reg_id v m = writel v (regs (hdev m) + reg_id) m"

definition hdmi_write_mask :: "'d env \<Rightarrow> u32 \<Rightarrow> u32 \<Rightarrow> u32 \<Rightarrow> 'd machine \<Rightarrow> 'd machine" where
  "hdmi_write_mask E reg_id v msk m =
     (let (old, m1) = readl E (regs (hdev m) + reg_id) m;
          v1 = (v AND msk) OR (old AND NOT msk)
      in writel v1 (regs (hdev m1) + reg_id) m1)"

definition hdmi_writeb :: "u32 \<Rightarrow> u8 \<Rightarrow> 'd machine \<Rightarrow> 'd machine" where
  "hdmi_writeb reg_id v m = writeb v (regs (hdev m) + reg_id) m"

text \<open>
  The \<^verbatim>\<open>switch\<close> of \<^verbatim>\<open>hdmi_writebn\<close> falls through: \<open>n = 1\<close> writes one byte, \<open>2\<close> two,
  \<open>3\<close> three, every other \<open>n\<close> four, the highest byte first. Each byte is the value shifted
  right and cut to eight bits.
\<close>

definition hdmi_writebn :: "u32 \<Rightarrow> int \<Rightarrow> u32 \<Rightarrow> 'd machine \<Rightarrow> 'd machine" where
  "hdmi_writebn reg_id n v m =
     (let m1 = (if n \<noteq> 3 \<and> n \<noteq> 2 \<and> n \<noteq> 1
                then writeb (ucast (drop_bit 24 v)) (regs (hdev m) + reg_id + 12) m else m);
          m2 = (if n \<noteq> 2 \<and> n \<noteq> 1
                then writeb (ucast (drop_bit 16 v)) (regs (hdev m1) + reg_id + 8) m1 else m1);
          m3 = (if n \<noteq> 1
                then writeb (ucast (drop_bit 8 v)) (regs (hdev m2) + reg_id + 4) m2 else m2)
      in writeb (ucast v) (regs (hdev m3) + reg_id + 0) m3)"

definition hdmi_read :: "'d env \<Rightarrow> u32 \<Rightarrow> 'd machine \<Rightarrow> u32 \<times> 'd machine" where
  "hdmi_read E reg_id m = readl E (regs (hdev m) + reg_id) m"

definition hdmi_dumpregs :: "string \<Rightarrow> 'd machine \<Rightarrow> 'd machine" where
  "hdmi_dumpregs prefix m = emit (Dumpregs prefix) m"

subsection \<open>Interrupt handler\<close>

datatype irqreturn = IRQ_NONE | IRQ_HANDLED

definition hdmi_irq_handler :: "'d decls \<Rightarrow> 'd env \<Rightarrow> 'd machine \<Rightarrow> irqreturn \<times> 'd machine" where
  "hdmi_irq_handler D E m =
     (let (intc_flag, m1) = hdmi_read E (macro D ''HDMI_INTC_FLAG'') m;
          m2 = (if intc_flag AND macro D ''HDMI_INTC_FLAG_HPD_UNPLUG'' \<noteq> 0
                then hdmi_write_mask E (macro D ''HDMI_INTC_FLAG'') (NOT 0)
                       (macro D ''HDMI_INTC_FLAG_HPD_UNPLUG'') m1
                else m1);
          m3 = (if intc_flag AND macro D ''HDMI_INTC_FLAG_HPD_PLUG'' \<noteq> 0
                then hdmi_write_mask E (macro D ''HDMI_INTC_FLAG'') (NOT 0)
                       (macro D ''HDMI_INTC_FLAG_HPD_PLUG'') m2
                else m2)
      in (IRQ_HANDLED, m3))"

subsection \<open>Register programming\<close>

definition hdmi_reg_init :: "'d decls \<Rightarrow> 'd env \<Rightarrow> 'd machine \<Rightarrow> 'd machine" where
  "hdmi_reg_init D E m =
     (let m1 = hdmi_write_mask E (macro D ''HDMI_INTC_CON'') (NOT 0)
                 (macro D ''HDMI_INTC_EN_GLOBAL'' OR macro D ''HDMI_INTC_EN_HPD_PLUG''
                    OR macro D ''HDMI_INTC_EN_HPD_UNPLUG'') m;
          m2 = hdmi_write_mask E (macro D ''HDMI_MODE_SEL'')
                 (macro D ''HDMI_MODE_DVI_EN'') (macro D ''HDMI_MODE_MASK'') m1;
          m3 = hdmi_write_mask E (macro D ''HDMI_CON_2'') (NOT 0)
                 (macro D ''HDMI_DVI_PERAMBLE_EN'' OR macro D ''HDMI_DVI_BAND_EN'') m2;
          m4 = hdmi_write_mask E (macro D ''HDMI_CON_0'') 0 (macro D ''HDMI_BLUE_SCR_EN'') m3;
          m5 = hdmi_writeb (macro D ''HDMI_BLUE_SCREEN_0'') 0x12 m4;
          m6 = hdmi_writeb (macro D ''HDMI_BLUE_SCREEN_1'') 0x34 m5
      in hdmi_writeb (macro D ''HDMI_BLUE_SCREEN_2'') 0x56 m6)"

definition hdmi_timing_apply ::
  "'d decls \<Rightarrow> 'd env \<Rightarrow> hdmi_timings \<Rightarrow> 'd machine \<Rightarrow> 'd machine" where
  "hdmi_timing_apply D E t m =
     (let \<comment> \<open>setting core registers\<close>
          m1 = hdmi_writebn (macro D ''HDMI_H_BLANK_0'') 2 (beg (hact t)) m;
          m2 = hdmi_writebn (macro D ''HDMI_H_SYNC_GEN_0'') 3
                 (push_bit 20 (hsyn_pol t) OR push_bit 10 (endp (hsyn t)) OR beg (hsyn t)) m1;
          m3 = hdmi_writeb (macro D ''HDMI_VSYNC_POL'') (ucast (vsyn_pol t)) m2;
          m4 = hdmi_writebn (macro D ''HDMI_V_BLANK_0'') 3
                 (push_bit 11 (beg (vact_0 t)) OR endp (vact_0 t)) m3;
          m5 = hdmi_writebn (macro D ''HDMI_V_SYNC_GEN_1_0'') 3
                 (push_bit 12 (beg (vsyn_0 t)) OR endp (vsyn_0 t)) m4;
          m6 = (if interlaced t \<noteq> 0 then
                  (let vsyn_trans = beg (hsyn t) + vsyn_off t;
                       c1 = hdmi_writeb (macro D ''HDMI_INT_PRO_MODE'') 1 m5;
                       c2 = hdmi_writebn (macro D ''HDMI_H_V_LINE_0'') 3
                              (push_bit 12 (endp (hact t)) OR endp (vact_1 t)) c1;
                       c3 = hdmi_writebn (macro D ''HDMI_V_BLANK_F_0'') 3
                              (push_bit 11 (endp (vact_1 t)) OR beg (vact_1 t)) c2;
                       c4 = hdmi_writebn (macro D ''HDMI_V_SYNC_GEN_2_0'') 3
                              (push_bit 12 (beg (vsyn_1 t)) OR endp (vsyn_1 t)) c3
                   in hdmi_writebn (macro D ''HDMI_V_SYNC_GEN_3_0'') 3
                        (push_bit 12 vsyn_trans OR vsyn_trans) c4)
                else
                  (let c1 = hdmi_writeb (macro D ''HDMI_INT_PRO_MODE'') 0 m5
                   in hdmi_writebn (macro D ''HDMI_H_V_LINE_0'') 3
                        (push_bit 12 (endp (hact t)) OR endp (vact_0 t)) c1));
          \<comment> \<open>timing generator registers\<close>
          m7 = hdmi_writebn (macro D ''HDMI_TG_H_FSZ_L'') 2 (endp (hact t)) m6;
          m8 = hdmi_writebn (macro D ''HDMI_TG_HACT_ST_L'') 2 (beg (hact t)) m7;
          m9 = hdmi_writebn (macro D ''HDMI_TG_HACT_SZ_L'') 2 (endp (hact t) - beg (hact t)) m8;
          m10 = hdmi_writebn (macro D ''HDMI_TG_VSYNC_L'') 2 (beg (vsyn_0 t)) m9;
          m11 = hdmi_writebn (macro D ''HDMI_TG_VACT_ST_L'') 2 (beg (vact_0 t)) m10;
          m12 = hdmi_writebn (macro D ''HDMI_TG_VACT_SZ_L'') 2
                  (endp (vact_0 t) - beg (vact_0 t)) m11;
          m13 = hdmi_writebn (macro D ''HDMI_TG_VSYNC_TOP_HDMI_L'') 2 (beg (vsyn_0 t)) m12;
          m14 = hdmi_writebn (macro D ''HDMI_TG_FIELD_TOP_HDMI_L'') 2 (beg (vsyn_0 t)) m13
      in if interlaced t \<noteq> 0 then
           (let g1 = hdmi_write_mask E (macro D ''HDMI_TG_CMD'') (NOT 0)
                       (macro D ''HDMI_TG_FIELD_EN'') m14;
                g2 = hdmi_writebn (macro D ''HDMI_TG_V_FSZ_L'') 2 (endp (vact_1 t)) g1;
                g3 = hdmi_writebn (macro D ''HDMI_TG_VSYNC2_L'') 2 (beg (vsyn_1 t)) g2;
                g4 = hdmi_writebn (macro D ''HDMI_TG_FIELD_CHG_L'') 2 (endp (vact_0 t)) g3;
                g5 = hdmi_writebn (macro D ''HDMI_TG_VACT_ST2_L'') 2 (beg (vact_1 t)) g4;
                g6 = hdmi_writebn (macro D ''HDMI_TG_VSYNC_BOT_HDMI_L'') 2 (beg (vsyn_1 t)) g5
            in hdmi_writebn (macro D ''HDMI_TG_FIELD_BOT_HDMI_L'') 2 (beg (vsyn_1 t)) g6)
         else
           (let g1 = hdmi_write_mask E (macro D ''HDMI_TG_CMD'') 0
                       (macro D ''HDMI_TG_FIELD_EN'') m14
            in hdmi_writebn (macro D ''HDMI_TG_V_FSZ_L'') 2 (endp (vact_0 t)) g1))"

subsection \<open>Applying the configuration\<close>

text \<open>
  \<^verbatim>\<open>hdmi_conf_apply\<close> hands \<^verbatim>\<open>cur_conf\<close> to \<^verbatim>\<open>hdmi_timing_apply\<close>, which dereferences it
  without a check: a \<^verbatim>\<open>NULL\<close> configuration is a fault at that point.
\<close>

definition hdmi_conf_apply ::
  "'d decls \<Rightarrow> 'd env \<Rightarrow> 'd machine \<Rightarrow> fault + (int \<times> 'd machine)" where
  "hdmi_conf_apply D E m =
     (let conf = cur_conf (hdev m) in
      if cur_conf_dirty (hdev m) = 0 then Inr (0, m)
      else
        (let m1 = hdmi_write_mask E (macro D ''HDMI_PHY_RSTOUT'') (NOT 0)
                    (macro D ''HDMI_PHY_SW_RSTOUT'') m;
             m2 = mdelay 10 m1;
             m3 = hdmi_write_mask E (macro D ''HDMI_PHY_RSTOUT'') 0
                    (macro D ''HDMI_PHY_SW_RSTOUT'') m2;
             m4 = mdelay 10 m3;
             (ret, m5) = v4l2_subdev_call D E (phy_sd (hdev m4))
                           (Video_s_dv_timings (cur_timings (hdev m4))) m4
         in if ret \<noteq> 0 then Inr (ret, m5)
            else
              (let m6 = hdmi_write_mask E (macro D ''HDMI_CORE_RSTOUT'') 0
                          (macro D ''HDMI_CORE_SW_RSTOUT'') m5;
                   m7 = mdelay 10 m6;
                   m8 = hdmi_write_mask E (macro D ''HDMI_CORE_RSTOUT'') (NOT 0)
                          (macro D ''HDMI_CORE_SW_RSTOUT'') m7;
                   m9 = mdelay 10 m8;
                   m10 = hdmi_reg_init D E m9
               in case conf of
                    None \<Rightarrow> Inl Null_dereference
                  | Some t \<Rightarrow>
                      (let m11 = hdmi_timing_apply D E t m10
                       in Inr (0, m11\<lparr>hdev := (hdev m11)\<lparr>cur_conf_dirty := 0\<rparr>\<rparr>)))))"

subsection \<open>The timing catalog\<close>

definition hdmi_timings_480p :: hdmi_timings where
  "hdmi_timings_480p =
     \<lparr>hact = \<lparr>beg = 138, endp = 858\<rparr>, hsyn_pol = 1, hsyn = \<lparr>beg = 16, endp = 16 + 62\<rparr>,
      interlaced = 0, vact_0 = \<lparr>beg = 42 + 3, endp = 522 + 3\<rparr>, vact_1 = \<lparr>beg = 0, endp = 0\<rparr>,
      vsyn_pol = 1, vsyn_off = 0, vsyn_0 = \<lparr>beg = 6 + 3, endp = 12 + 3\<rparr>,
      vsyn_1 = \<lparr>beg = 0, endp = 0\<rparr>\<rparr>"

definition hdmi_timings_576p50 :: hdmi_timings where
  "hdmi_timings_576p50 =
     \<lparr>hact = \<lparr>beg = 144, endp = 864\<rparr>, hsyn_pol = 1, hsyn = \<lparr>beg = 12, endp = 12 + 64\<rparr>,
      interlaced = 0, vact_0 = \<lparr>beg = 44 + 5, endp = 620 + 5\<rparr>, vact_1 = \<lparr>beg = 0, endp = 0\<rparr>,
      vsyn_pol = 1, vsyn_off = 0, vsyn_0 = \<lparr>beg = 0 + 5, endp = 5 + 5\<rparr>,
      vsyn_1 = \<lparr>beg = 0, endp = 0\<rparr>\<rparr>"

definition hdmi_timings_720p60 :: hdmi_timings where
  "hdmi_timings_720p60 =
     \<lparr>hact = \<lparr>beg = 370, endp = 1650\<rparr>, hsyn_pol = 0, hsyn = \<lparr>beg = 110, endp = 110 + 40\<rparr>,
      interlaced = 0, vact_0 = \<lparr>beg = 25 + 5, endp = 745 + 5\<rparr>, vact_1 = \<lparr>beg = 0, endp = 0\<rparr>,
      vsyn_pol = 0, vsyn_off = 0, vsyn_0 = \<lparr>beg = 0 + 5, endp = 5 + 5\<rparr>,
      vsyn_1 = \<lparr>beg = 0, endp = 0\<rparr>\<rparr>"

definition hdmi_timings_720p50 :: hdmi_timings where
  "hdmi_timings_720p50 =
     \<lparr>hact = \<lparr>beg = 700, endp = 1980\<rparr>, hsyn_pol = 0, hsyn = \<lparr>beg = 440, endp = 440 + 40\<rparr>,
      interlaced = 0, vact_0 = \<lparr>beg = 25 + 5, endp = 745 + 5\<rparr>, vact_1 = \<lparr>beg = 0, endp = 0\<rparr>,
      vsyn_pol = 0, vsyn_off = 0, vsyn_0 = \<lparr>beg = 0 + 5, endp = 5 + 5\<rparr>,
      vsyn_1 = \<lparr>beg = 0, endp = 0\<rparr>\<rparr>"

definition hdmi_timings_1080p24 :: hdmi_timings where
  "hdmi_timings_1080p24 =
     \<lparr>hact = \<lparr>beg = 830, endp = 2750\<rparr>, hsyn_pol = 0, hsyn = \<lparr>beg = 638, endp = 638 + 44\<rparr>,
      interlaced = 0, vact_0 = \<lparr>beg = 41 + 4, endp = 1121 + 4\<rparr>, vact_1 = \<lparr>beg = 0, endp = 0\<rparr>,
      vsyn_pol = 0, vsyn_off = 0, vsyn_0 = \<lparr>beg = 0 + 4, endp = 5 + 4\<rparr>,
      vsyn_1 = \<lparr>beg = 0, endp = 0\<rparr>\<rparr>"

definition hdmi_timings_1080p60 :: hdmi_timings where
  "hdmi_timings_1080p60 =
     \<lparr>hact = \<lparr>beg = 280, endp = 2200\<rparr>, hsyn_pol = 0, hsyn = \<lparr>beg = 88, endp = 88 + 44\<rparr>,
      interlaced = 0, vact_0 = \<lparr>beg = 41 + 4, endp = 1121 + 4\<rparr>, vact_1 = \<lparr>beg = 0, endp = 0\<rparr>,
      vsyn_pol = 0, vsyn_off = 0, vsyn_0 = \<lparr>beg = 0 + 4, endp = 5 + 4\<rparr>,
      vsyn_1 = \<lparr>beg = 0, endp = 0\<rparr>\<rparr>"

definition hdmi_timings_1080i60 :: hdmi_timings where
  "hdmi_timings_1080i60 =
     \<lparr>hact = \<lparr>beg = 280, endp = 2200\<rparr>, hsyn_pol = 0, hsyn = \<lparr>beg = 88, endp = 88 + 44\<rparr>,
      interlaced = 1, vact_0 = \<lparr>beg = 20 + 2, endp = 560 + 2\<rparr>,
      vact_1 = \<lparr>beg = 583 + 2, endp = 1123 + 2\<rparr>,
      vsyn_pol = 0, vsyn_off = 1100, vsyn_0 = \<lparr>beg = 0 + 2, endp = 5 + 2\<rparr>,
      vsyn_1 = \<lparr>beg = 562 + 2, endp = 567 + 2\<rparr>\<rparr>"

definition hdmi_timings_1080i50 :: hdmi_timings where
  "hdmi_timings_1080i50 =
     \<lparr>hact = \<lparr>beg = 720, endp = 2640\<rparr>, hsyn_pol = 0, hsyn = \<lparr>beg = 528, endp = 528 + 44\<rparr>,
      interlaced = 1, vact_0 = \<lparr>beg = 20 + 2, endp = 560 + 2\<rparr>,
      vact_1 = \<lparr>beg = 583 + 2, endp = 1123 + 2\<rparr>,
      vsyn_pol = 0, vsyn_off = 1320, vsyn_0 = \<lparr>beg = 0 + 2, endp = 5 + 2\<rparr>,
      vsyn_1 = \<lparr>beg = 562 + 2, endp = 567 + 2\<rparr>\<rparr>"

definition hdmi_timings_1080p50 :: hdmi_timings where
  "hdmi_timings_1080p50 =
     \<lparr>hact = \<lparr>beg = 720, endp = 2640\<rparr>, hsyn_pol = 0, hsyn = \<lparr>beg = 528, endp = 528 + 44\<rparr>,
      interlaced = 0, vact_0 = \<lparr>beg = 41 + 4, endp = 1121 + 4\<rparr>, vact_1 = \<lparr>beg = 0, endp = 0\<rparr>,
      vsyn_pol = 0, vsyn_off = 0, vsyn_0 = \<lparr>beg = 0 + 4, endp = 5 + 4\<rparr>,
      vsyn_1 = \<lparr>beg = 0, endp = 0\<rparr>\<rparr>"

text \<open>
  One element of the array \<^verbatim>\<open>hdmi_timings[]\<close>; the member that points to the register-level
  timings is called \<open>hdmi_timings_of\<close> here. The array itself is \<open>hdmi_timings_tab\<close>.
\<close>

record 'd hdmi_timings_entry =
  reduced_fps :: bool
  dv_timings :: "'d v4l2_dv_timings"
  hdmi_timings_of :: hdmi_timings

definition HDMI_DEFAULT_TIMINGS_IDX :: nat where
  "HDMI_DEFAULT_TIMINGS_IDX = 0"

definition hdmi_timings_tab :: "'d decls \<Rightarrow> 'd hdmi_timings_entry list" where
  "hdmi_timings_tab D =
     [\<lparr>reduced_fps = False, dv_timings = V4L2_DV_BT_CEA D ''720X480P59_94'',
        hdmi_timings_of = hdmi_timings_480p\<rparr>,
      \<lparr>reduced_fps = False, dv_timings = V4L2_DV_BT_CEA D ''720X576P50'',
        hdmi_timings_of = hdmi_timings_576p50\<rparr>,
      \<lparr>reduced_fps = False, dv_timings = V4L2_DV_BT_CEA D ''1280X720P50'',
        hdmi_timings_of = hdmi_timings_720p50\<rparr>,
      \<lparr>reduced_fps = True, dv_timings = V4L2_DV_BT_CEA D ''1280X720P60'',
        hdmi_timings_of = hdmi_timings_720p60\<rparr>,
      \<lparr>reduced_fps = False, dv_timings = V4L2_DV_BT_CEA D ''1920X1080P24'',
        hdmi_timings_of = hdmi_timings_1080p24\<rparr>,
      \<lparr>reduced_fps = False, dv_timings = V4L2_DV_BT_CEA D ''1920X1080P30'',
        hdmi_timings_of = hdmi_timings_1080p60\<rparr>,
      \<lparr>reduced_fps = False, dv_timings = V4L2_DV_BT_CEA D ''1920X1080P50'',
        hdmi_timings_of = hdmi_timings_1080p50\<rparr>,
      \<lparr>reduced_fps = False, dv_timings = V4L2_DV_BT_CEA D ''1920X1080I50'',
        hdmi_timings_of = hdmi_timings_1080i50\<rparr>,
      \<lparr>reduced_fps = False, dv_timings = V4L2_DV_BT_CEA D ''1920X1080I60'',
        hdmi_timings_of = hdmi_timings_1080i60\<rparr>,
      \<lparr>reduced_fps = False, dv_timings = V4L2_DV_BT_CEA D ''1920X1080P60'',
        hdmi_timings_of = hdmi_timings_1080p60\<rparr>]"

text \<open>
  The stages of \<^verbatim>\<open>hdmi_conf_apply\<close> on a dirty configuration, named so that statements
  can refer to them: the machine after the PHY reset; the call that hands the current
  timings to the PHY, with its result; the machine after the core reset that follows;
  the machine after \<^verbatim>\<open>hdmi_reg_init\<close> and \<^verbatim>\<open>hdmi_timing_apply\<close>. Lemma
  \<open>hdmi_conf_apply_stages\<close> shows that \<open>hdmi_conf_apply\<close> is their composition.
\<close>

definition conf_apply_phy_reset :: "'d decls \<Rightarrow> 'd env \<Rightarrow> 'd machine \<Rightarrow> 'd machine" where
  "conf_apply_phy_reset D E m =
     mdelay 10
       (hdmi_write_mask E (macro D ''HDMI_PHY_RSTOUT'') 0 (macro D ''HDMI_PHY_SW_RSTOUT'')
          (mdelay 10
             (hdmi_write_mask E (macro D ''HDMI_PHY_RSTOUT'') (NOT 0)
                (macro D ''HDMI_PHY_SW_RSTOUT'') m)))"

definition conf_apply_phy_timings ::
  "'d decls \<Rightarrow> 'd env \<Rightarrow> 'd machine \<Rightarrow> int \<times> 'd machine" where
  "conf_apply_phy_timings D E m =
     v4l2_subdev_call D E (phy_sd (hdev m)) (Video_s_dv_timings (cur_timings (hdev m)))
       (conf_apply_phy_reset D E m)"

definition conf_apply_core_reset :: "'d decls \<Rightarrow> 'd env \<Rightarrow> 'd machine \<Rightarrow> 'd machine" where
  "conf_apply_core_reset D E m =
     mdelay 10
       (hdmi_write_mask E (macro D ''HDMI_CORE_RSTOUT'') (NOT 0) (macro D ''HDMI_CORE_SW_RSTOUT'')
          (mdelay 10
             (hdmi_write_mask E (macro D ''HDMI_CORE_RSTOUT'') 0
                (macro D ''HDMI_CORE_SW_RSTOUT'') (snd (conf_apply_phy_timings D E m)))))"

definition conf_apply_programmed ::
  "'d decls \<Rightarrow> 'd env \<Rightarrow> hdmi_timings \<Rightarrow> 'd machine \<Rightarrow> 'd machine" where
  "conf_apply_programmed D E t m =
     hdmi_timing_apply D E t (hdmi_reg_init D E (conf_apply_core_reset D E m))"

subsection \<open>Starting and stopping the stream\<close>

text \<open>
  The loop that waits for the PLL of the PHY: \<open>tries\<close> counts down from its start value;
  the result is the value of \<open>tries\<close> when the loop is left.
\<close>

fun hdmi_phy_wait :: "'d decls \<Rightarrow> 'd env \<Rightarrow> nat \<Rightarrow> 'd machine \<Rightarrow> nat \<times> 'd machine" where
  "hdmi_phy_wait D E 0 m = (0, m)"
| "hdmi_phy_wait D E (Suc n) m =
     (let (val, m1) = hdmi_read E (macro D ''HDMI_PHY_STATUS'') m
      in if val AND macro D ''HDMI_PHY_STATUS_READY'' \<noteq> 0 then (Suc n, m1)
         else hdmi_phy_wait D E n (mdelay 1 m1))"

definition hdmi_streamon ::
  "'d decls \<Rightarrow> 'd env \<Rightarrow> 'd machine \<Rightarrow> fault + (int \<times> 'd machine)" where
  "hdmi_streamon D E m =
     (case hdmi_conf_apply D E m of
        Inl f \<Rightarrow> Inl f
      | Inr (ret, m1) \<Rightarrow>
          if ret \<noteq> 0 then Inr (ret, m1)
          else
            (let (ret, m2) = v4l2_subdev_call D E (phy_sd (hdev m1)) (Video_s_stream 1) m1
             in if ret \<noteq> 0 then Inr (ret, m2)
                else
                  (let (tries, m3) = hdmi_phy_wait D E 100 m2
                   in if tries = 0 then
                        (let (r, m4) = v4l2_subdev_call D E (phy_sd (hdev m3))
                                         (Video_s_stream 0) m3;
                             m5 = hdmi_dumpregs ''hdmiphy - s_stream'' m4
                         in Inr (- EIO D, m5))
                      else
                        (let (ret, m4) = v4l2_subdev_call D E (mhl_sd (hdev m3))
                                           (Video_s_stream 1) m3
                         in if mhl_sd (hdev m4) \<noteq> None \<and> ret \<noteq> 0 then
                              (let (r, m5) = v4l2_subdev_call D E (phy_sd (hdev m4))
                                               (Video_s_stream 0) m4;
                                   m6 = hdmi_dumpregs ''mhl - s_stream'' m5
                               in Inr (- EIO D, m6))
                            else
                              (let m5 = clk_disable (sclk_hdmi (res (hdev m4))) m4;
                                   m6 = clk_set_parent (sclk_hdmi (res (hdev m5)))
                                          (sclk_hdmiphy (res (hdev m5))) m5;
                                   m7 = clk_enable (sclk_hdmi (res (hdev m6))) m6;
                                   m8 = hdmi_write_mask E (macro D ''HDMI_CON_0'') (NOT 0)
                                          (macro D ''HDMI_EN'') m7;
                                   m9 = hdmi_write_mask E (macro D ''HDMI_TG_CMD'') (NOT 0)
                                          (macro D ''HDMI_TG_EN'') m8;
                                   m10 = hdmi_dumpregs ''streamon'' m9
                               in Inr (0, m10))))))"

definition hdmi_streamoff :: "'d decls \<Rightarrow> 'd env \<Rightarrow> 'd machine \<Rightarrow> int \<times> 'd machine" where
  "hdmi_streamoff D E m =
     (let m1 = hdmi_write_mask E (macro D ''HDMI_CON_0'') 0 (macro D ''HDMI_EN'') m;
          m2 = hdmi_write_mask E (macro D ''HDMI_TG_CMD'') 0 (macro D ''HDMI_TG_EN'') m1;
          m3 = clk_disable (sclk_hdmi (res (hdev m2))) m2;
          m4 = clk_set_parent (sclk_hdmi (res (hdev m3))) (sclk_pixel (res (hdev m3))) m3;
          m5 = clk_enable (sclk_hdmi (res (hdev m4))) m4;
          (r1, m6) = v4l2_subdev_call D E (mhl_sd (hdev m5)) (Video_s_stream 0) m5;
          (r2, m7) = v4l2_subdev_call D E (phy_sd (hdev m6)) (Video_s_stream 0) m6;
          m8 = hdmi_dumpregs ''streamoff'' m7
      in (0, m8))"

definition hdmi_s_stream ::
  "'d decls \<Rightarrow> 'd env \<Rightarrow> int \<Rightarrow> 'd machine \<Rightarrow> fault + (int \<times> 'd machine)" where
  "hdmi_s_stream D E enable m =
     (if enable \<noteq> 0 then hdmi_streamon D E m else Inr (hdmi_streamoff D E m))"

text \<open>
  The stages of \<^verbatim>\<open>hdmi_streamon\<close> after \<open>hdmi_conf_apply\<close> has left the machine \<open>m\<close>,
  named so that statements can refer to them: the call that starts the PHY; the wait for
  the PLL that follows; the call that starts the MHL repeater after the wait; the
  best-effort call that stops the PHY on a failure; the switch of the clock parent and the
  setting of the two enable bits. Lemma \<open>hdmi_streamon_stages\<close> shows that
  \<open>hdmi_streamon\<close> is their composition.
\<close>

definition streamon_phy_start ::
  "'d decls \<Rightarrow> 'd env \<Rightarrow> 'd machine \<Rightarrow> int \<times> 'd machine" where
  "streamon_phy_start D E m = v4l2_subdev_call D E (phy_sd (hdev m)) (Video_s_stream 1) m"

definition streamon_wait ::
  "'d decls \<Rightarrow> 'd env \<Rightarrow> 'd machine \<Rightarrow> nat \<times> 'd machine" where
  "streamon_wait D E m = hdmi_phy_wait D E 100 (snd (streamon_phy_start D E m))"

definition streamon_mhl_start ::
  "'d decls \<Rightarrow> 'd env \<Rightarrow> 'd machine \<Rightarrow> int \<times> 'd machine" where
  "streamon_mhl_start D E m =
     v4l2_subdev_call D E (mhl_sd (hdev m)) (Video_s_stream 1) (snd (streamon_wait D E m))"

definition streamon_phy_stop :: "'d decls \<Rightarrow> 'd env \<Rightarrow> 'd machine \<Rightarrow> 'd machine" where
  "streamon_phy_stop D E m =
     snd (v4l2_subdev_call D E (phy_sd (hdev m)) (Video_s_stream 0) m)"

definition streamon_enable :: "'d decls \<Rightarrow> 'd env \<Rightarrow> 'd machine \<Rightarrow> 'd machine" where
  "streamon_enable D E m =
     hdmi_dumpregs ''streamon''
       (hdmi_write_mask E (macro D ''HDMI_TG_CMD'') (NOT 0) (macro D ''HDMI_TG_EN'')
          (hdmi_write_mask E (macro D ''HDMI_CON_0'') (NOT 0) (macro D ''HDMI_EN'')
             (clk_enable (sclk_hdmi (res (hdev m)))
                (clk_set_parent (sclk_hdmi (res (hdev m))) (sclk_hdmiphy (res (hdev m)))
                   (clk_disable (sclk_hdmi (res (hdev m))) m)))))"

subsection \<open>Power\<close>

definition hdmi_resource_poweron :: "'d env \<Rightarrow> 'd machine \<Rightarrow> int \<times> 'd machine" where
  "hdmi_resource_poweron E m =
     (let (ret, m1) = regulator_bulk_enable E (regul_count (res (hdev m)))
                        (regul_bulk (res (hdev m))) m
      in if ret < 0 then (ret, m1)
         else
           (let m2 = clk_enable (hdmiphy (res (hdev m1))) m1;
                m3 = clk_set_parent (sclk_hdmi (res (hdev m2))) (sclk_pixel (res (hdev m2))) m2;
                m4 = clk_enable (sclk_hdmi (res (hdev m3))) m3
            in (0, m4)))"

definition hdmi_resource_poweroff :: "'d machine \<Rightarrow> 'd machine" where
  "hdmi_resource_poweroff m =
     (let m1 = clk_disable (sclk_hdmi (res (hdev m))) m;
          m2 = clk_disable (hdmiphy (res (hdev m1))) m1
      in regulator_bulk_disable (regul_count (res (hdev m2))) (regul_bulk (res (hdev m2))) m2)"

definition hdmi_runtime_suspend ::
  "'d decls \<Rightarrow> 'd env \<Rightarrow> 'd machine \<Rightarrow> int \<times> 'd machine" where
  "hdmi_runtime_suspend D E m =
     (let (r, m1) = v4l2_subdev_call D E (mhl_sd (hdev m)) (Core_s_power 0) m;
          m2 = hdmi_resource_poweroff m1
      in (0, m2\<lparr>hdev := (hdev m2)\<lparr>cur_conf_dirty := 1\<rparr>\<rparr>))"

definition hdmi_runtime_resume ::
  "'d decls \<Rightarrow> 'd env \<Rightarrow> 'd machine \<Rightarrow> int \<times> 'd machine" where
  "hdmi_runtime_resume D E m =
     (let (ret, m1) = hdmi_resource_poweron E m
      in if ret < 0 then (ret, m1)
         else
           (let (ret, m2) = v4l2_subdev_call D E (mhl_sd (hdev m1)) (Core_s_power 1) m1
            in if mhl_sd (hdev m2) \<noteq> None \<and> ret \<noteq> 0
               then (ret, hdmi_resource_poweroff m2)
               else (0, m2)))"

text \<open>
  Modelled from the spec: \<^verbatim>\<open>pm_runtime_get_sync\<close> and \<^verbatim>\<open>pm_runtime_put_sync\<close> belong to
  the runtime-PM core, which is not part of the file. The spec names the resume and the
  suspend handler as the hooks of the power-state transitions behind set-power. At each
  call the environment decides whether the core returns a value of its own or runs the
  hook and returns its result.
\<close>

definition pm_runtime_get_sync ::
  "'d decls \<Rightarrow> 'd env \<Rightarrow> 'd machine \<Rightarrow> int \<times> 'd machine" where
  "pm_runtime_get_sync D E m =
     (case pm_core E (io m) of
        Pm_return r \<Rightarrow> (r, emit Pm_runtime_get_sync m)
      | Pm_callback \<Rightarrow> hdmi_runtime_resume D E (emit Pm_runtime_get_sync m))"

definition pm_runtime_put_sync ::
  "'d decls \<Rightarrow> 'd env \<Rightarrow> 'd machine \<Rightarrow> int \<times> 'd machine" where
  "pm_runtime_put_sync D E m =
     (case pm_core E (io m) of
        Pm_return r \<Rightarrow> (r, emit Pm_runtime_put_sync m)
      | Pm_callback \<Rightarrow> hdmi_runtime_suspend D E (emit Pm_runtime_put_sync m))"

definition hdmi_s_power ::
  "'d decls \<Rightarrow> 'd env \<Rightarrow> int \<Rightarrow> 'd machine \<Rightarrow> int \<times> 'd machine" where
  "hdmi_s_power D E on m =
     (let (ret, m1) = (if on \<noteq> 0 then pm_runtime_get_sync D E m
                       else pm_runtime_put_sync D E m)
      in (if IS_ERR_VALUE D ret then ret else 0, m1))"

subsection \<open>Timings\<close>

text \<open>
  The search loop of \<^verbatim>\<open>hdmi_s_dv_timings\<close>: the index of the first element of the array
  that matches, counted from \<open>i\<close>, or the index after the last element.
\<close>

fun hdmi_timings_find ::
  "'d decls \<Rightarrow> 'd hdmi_timings_entry list \<Rightarrow> 'd v4l2_dv_timings \<Rightarrow> nat \<Rightarrow> nat" where
  "hdmi_timings_find D [] timings i = i"
| "hdmi_timings_find D (e # es) timings i =
     (if v4l2_match_dv_timings D (dv_timings e) timings 0 then i
      else hdmi_timings_find D es timings (Suc i))"

definition hdmi_s_dv_timings ::
  "'d decls \<Rightarrow> 'd v4l2_dv_timings \<Rightarrow> 'd machine \<Rightarrow> int \<times> 'd machine" where
  "hdmi_s_dv_timings D timings m =
     (let i = hdmi_timings_find D (hdmi_timings_tab D) timings 0
      in if i = length (hdmi_timings_tab D) then (- EINVAL D, m)
         else
           (let h1 = (hdev m)\<lparr>cur_conf := Some (hdmi_timings_of (hdmi_timings_tab D ! i))\<rparr>;
                h2 = h1\<lparr>cur_conf_dirty := 1\<rparr>;
                h3 = h2\<lparr>cur_timings := timings\<rparr>;
                h4 = (if \<not> reduced_fps (hdmi_timings_tab D ! i)
                      then h3\<lparr>cur_timings := (cur_timings h3)
                             \<lparr>bt_flags := bt_flags (cur_timings h3)
                                AND NOT (macro D ''V4L2_DV_FL_CAN_REDUCE_FPS'')\<rparr>\<rparr>
                      else h3)
            in (0, m\<lparr>hdev := h4\<rparr>)))"

definition hdmi_g_dv_timings :: "'d machine \<Rightarrow> int \<times> 'd v4l2_dv_timings" where
  "hdmi_g_dv_timings m = (0, cur_timings (hdev m))"

definition hdmi_g_mbus_fmt :: "'d decls \<Rightarrow> 'd machine \<Rightarrow> int \<times> v4l2_mbus_framefmt option" where
  "hdmi_g_mbus_fmt D m =
     (case cur_conf (hdev m) of
        None \<Rightarrow> (- EINVAL D, None)
      | Some t \<Rightarrow>
          (let f0 = \<lparr>fmt_width = 0, fmt_height = 0, fmt_code = 0, fmt_field = 0,
                     fmt_colorspace = 0\<rparr>;
               f1 = f0\<lparr>fmt_width := endp (hact t) - beg (hact t)\<rparr>;
               f2 = f1\<lparr>fmt_height := endp (vact_0 t) - beg (vact_0 t)\<rparr>;
               f3 = f2\<lparr>fmt_code := macro D ''V4L2_MBUS_FMT_FIXED''\<rparr>;
               f4 = f3\<lparr>fmt_colorspace := macro D ''V4L2_COLORSPACE_SRGB''\<rparr>;
               f5 = (if interlaced t \<noteq> 0
                     then f4\<lparr>fmt_field := macro D ''V4L2_FIELD_INTERLACED'',
                             fmt_height := fmt_height f4 * 2\<rparr>
                     else f4\<lparr>fmt_field := macro D ''V4L2_FIELD_NONE''\<rparr>)
           in (0, Some f5)))"

text \<open>\<^verbatim>\<open>hdmi_enum_dv_timings\<close>, from the pad and the index of the request.\<close>

definition hdmi_enum_dv_timings ::
  "'d decls \<Rightarrow> u32 \<Rightarrow> u32 \<Rightarrow> int \<times> 'd v4l2_dv_timings option" where
  "hdmi_enum_dv_timings D pad index =
     (if pad \<noteq> 0 then (- EINVAL D, None)
      else if unat index \<ge> length (hdmi_timings_tab D) then (- EINVAL D, None)
      else
        (let e = hdmi_timings_tab D ! unat index;
             t = dv_timings e;
             t1 = (if \<not> reduced_fps e
                   then t\<lparr>bt_flags := bt_flags t AND NOT (macro D ''V4L2_DV_FL_CAN_REDUCE_FPS'')\<rparr>
                   else t)
         in (0, Some t1)))"

text \<open>
  \<^verbatim>\<open>hdmi_dv_timings_cap\<close>; \<open>phy_fill\<close> is what the PHY's \<^verbatim>\<open>dv_timings_cap\<close> operation
  leaves in the structure it is given.
\<close>

definition hdmi_dv_timings_cap ::
  "'d decls \<Rightarrow> 'd env \<Rightarrow> ('c v4l2_dv_timings_cap \<Rightarrow> 'c v4l2_dv_timings_cap) \<Rightarrow>
   'c v4l2_dv_timings_cap \<Rightarrow> 'd machine \<Rightarrow> (int \<times> 'c v4l2_dv_timings_cap) \<times> 'd machine" where
  "hdmi_dv_timings_cap D E phy_fill cap m =
     (if cap_pad cap \<noteq> 0 then ((- EINVAL D, cap), m)
      else
        (let (r, m1) = v4l2_subdev_call D E (phy_sd (hdev m)) Pad_dv_timings_cap m;
             c1 = (if phy_sd (hdev m) = None then cap else phy_fill cap);
             c2 = c1\<lparr>cap_type := macro D ''V4L2_DV_BT_656_1120''\<rparr>;
             c3 = c2\<lparr>cap_min_width := 720\<rparr>;
             c4 = c3\<lparr>cap_max_width := 1920\<rparr>;
             c5 = c4\<lparr>cap_min_height := 480\<rparr>;
             c6 = c5\<lparr>cap_max_height := 1080\<rparr>;
             c7 = c6\<lparr>cap_standards := macro D ''V4L2_DV_BT_STD_CEA861''\<rparr>;
             c8 = c7\<lparr>cap_capabilities := macro D ''V4L2_DV_BT_CAP_INTERLACED''
                                           OR macro D ''V4L2_DV_BT_CAP_PROGRESSIVE''\<rparr>
         in ((0, c8), m1)))"

subsection \<open>The entry points of the device\<close>

text \<open>
  The calls that reach the driver while the device is attached: the subdevice operations
  (\<^verbatim>\<open>hdmi_sd_ops\<close>), the runtime-PM callbacks (\<^verbatim>\<open>hdmi_pm_ops\<close>) and the interrupt handler.
  \<open>hdmi_call\<close> gives the machine a call leaves behind, or \<open>None\<close> when it faults. The
  operations that only read the device structure leave the machine as it is.
\<close>

datatype ('d, 'c) hdmi_entry =
    S_power int
  | S_dv_timings "'d v4l2_dv_timings"
  | G_dv_timings
  | G_mbus_fmt
  | S_stream int
  | Enum_dv_timings u32 u32
  | Dv_timings_cap "'c v4l2_dv_timings_cap \<Rightarrow> 'c v4l2_dv_timings_cap" "'c v4l2_dv_timings_cap"
  | Runtime_suspend
  | Runtime_resume
  | Irq

fun hdmi_call ::
  "'d decls \<Rightarrow> 'd env \<Rightarrow> ('d, 'c) hdmi_entry \<Rightarrow> 'd machine \<Rightarrow> 'd machine option" where
  "hdmi_call D E (S_power on) m = Some (snd (hdmi_s_power D E on m))"
| "hdmi_call D E (S_dv_timings timings) m = Some (snd (hdmi_s_dv_timings D timings m))"
| "hdmi_call D E G_dv_timings m = Some m"
| "hdmi_call D E G_mbus_fmt m = Some m"
| "hdmi_call D E (S_stream enable) m =
     (case hdmi_s_stream D E enable m of Inl f \<Rightarrow> None | Inr (ret, m1) \<Rightarrow> Some m1)"
| "hdmi_call D E (Enum_dv_timings pad index) m = Some m"
| "hdmi_call D E (Dv_timings_cap phy_fill cap) m =
     Some (snd (hdmi_dv_timings_cap D E phy_fill cap m))"
| "hdmi_call D E Runtime_suspend m = Some (snd (hdmi_runtime_suspend D E m))"
| "hdmi_call D E Runtime_resume m = Some (snd (hdmi_runtime_resume D E m))"
| "hdmi_call D E Irq m = Some (snd (hdmi_irq_handler D E m))"

subsection \<open>Reading the log\<close>

text \<open>What a call added to the log: the log of the machine after it, without the log before.\<close>

definition new_io :: "'d machine \<Rightarrow> 'd machine \<Rightarrow> 'd event list" where
  "new_io m m1 = drop (length (io m)) (io m1)"

fun is_clk_op :: "'d event \<Rightarrow> bool" where
  "is_clk_op (Clk_enable c) = True"
| "is_clk_op (Clk_disable c) = True"
| "is_clk_op (Clk_set_parent c p) = True"
| "is_clk_op e = False"

fun is_reg_write :: "'d event \<Rightarrow> bool" where
  "is_reg_write (Writel a v) = True"
| "is_reg_write (Writeb a v) = True"
| "is_reg_write e = False"

text \<open>The bytes written to one address, in the order of the log.\<close>

fun written :: "u32 \<Rightarrow> 'd event list \<Rightarrow> u8 list" where
  "written a [] = []"
| "written a (Writeb b v # es) = (if b = a then v # written a es else written a es)"
| "written a (e # es) = written a es"

text \<open>
  The value held by a pair of byte registers (high, low), by a triple of byte registers,
  and the two twelve-bit halves of a 24-bit value.
\<close>

definition reg16 :: "u8 \<Rightarrow> u8 \<Rightarrow> u32" where
  "reg16 h l = push_bit 8 (ucast h) OR ucast l"

definition reg24 :: "u8 \<Rightarrow> u8 \<Rightarrow> u8 \<Rightarrow> u32" where
  "reg24 b2 b1 b0 = push_bit 16 (ucast b2) OR push_bit 8 (ucast b1) OR ucast b0"

definition low12 :: "u32 \<Rightarrow> u32" where
  "low12 v = v AND 0xFFF"

definition high12 :: "u32 \<Rightarrow> u32" where
  "high12 v = drop_bit 12 v AND 0xFFF"

text \<open>
  \<open>adds_only P m m1\<close>: the log of \<open>m1\<close> is the log of \<open>m\<close> followed by entries that all
  satisfy \<open>P\<close>.
\<close>

definition adds_only :: "('d event \<Rightarrow> bool) \<Rightarrow> 'd machine \<Rightarrow> 'd machine \<Rightarrow> bool" where
  "adds_only P m m1 \<longleftrightarrow> (\<exists>xs. io m1 = io m @ xs \<and> list_all P xs)"

subsection \<open>A sample platform\<close>

text \<open>
  Concrete values for the parameters, on which the theorems are exercised: a header with
  pairwise distinct register offsets, descriptors that carry the name of their mode, a
  comparison by that name, and a device as the probe leaves it.
\<close>

definition sample_macro :: "string \<Rightarrow> u32" where
  "sample_macro n =
     (case map_of
        [(''HDMI_INTC_CON'', 0x0000), (''HDMI_INTC_FLAG'', 0x0004),
         (''HDMI_PHY_RSTOUT'', 0x0014), (''HDMI_CORE_RSTOUT'', 0x0020),
         (''HDMI_CON_0'', 0x10000), (''HDMI_CON_2'', 0x10008),
         (''HDMI_PHY_STATUS'', 0x10014), (''HDMI_MODE_SEL'', 0x10040),
         (''HDMI_BLUE_SCREEN_0'', 0x10050), (''HDMI_BLUE_SCREEN_1'', 0x10054),
         (''HDMI_BLUE_SCREEN_2'', 0x10058),
         (''HDMI_H_BLANK_0'', 0x100A0), (''HDMI_V_BLANK_0'', 0x100B0),
         (''HDMI_H_V_LINE_0'', 0x100C0), (''HDMI_VSYNC_POL'', 0x100E4),
         (''HDMI_INT_PRO_MODE'', 0x100E8), (''HDMI_V_BLANK_F_0'', 0x10110),
         (''HDMI_H_SYNC_GEN_0'', 0x10120), (''HDMI_V_SYNC_GEN_1_0'', 0x10130),
         (''HDMI_V_SYNC_GEN_2_0'', 0x10140), (''HDMI_V_SYNC_GEN_3_0'', 0x10150),
         (''HDMI_TG_CMD'', 0x50000), (''HDMI_TG_H_FSZ_L'', 0x50018),
         (''HDMI_TG_HACT_ST_L'', 0x50020), (''HDMI_TG_HACT_SZ_L'', 0x50028),
         (''HDMI_TG_V_FSZ_L'', 0x50030), (''HDMI_TG_VSYNC_L'', 0x50038),
         (''HDMI_TG_VSYNC2_L'', 0x50040), (''HDMI_TG_VACT_ST_L'', 0x50048),
         (''HDMI_TG_VACT_SZ_L'', 0x50050), (''HDMI_TG_FIELD_CHG_L'', 0x50058),
         (''HDMI_TG_VACT_ST2_L'', 0x50060), (''HDMI_TG_VSYNC_TOP_HDMI_L'', 0x50078),
         (''HDMI_TG_VSYNC_BOT_HDMI_L'', 0x50080), (''HDMI_TG_FIELD_TOP_HDMI_L'', 0x50088),
         (''HDMI_TG_FIELD_BOT_HDMI_L'', 0x50090),
         (''HDMI_EN'', 0x1), (''HDMI_TG_EN'', 0x1), (''HDMI_TG_FIELD_EN'', 0x2),
         (''HDMI_BLUE_SCR_EN'', 0x20), (''HDMI_PHY_STATUS_READY'', 0x1),
         (''HDMI_PHY_SW_RSTOUT'', 0x1), (''HDMI_CORE_SW_RSTOUT'', 0x1),
         (''V4L2_DV_FL_CAN_REDUCE_FPS'', 0x1),
         (''HDMI_INTC_EN_GLOBAL'', 0x40), (''HDMI_INTC_EN_HPD_PLUG'', 0x4),
         (''HDMI_INTC_EN_HPD_UNPLUG'', 0x8), (''HDMI_MODE_DVI_EN'', 0x1),
         (''HDMI_MODE_MASK'', 0x3), (''HDMI_DVI_PERAMBLE_EN'', 0x20),
         (''HDMI_DVI_BAND_EN'', 0x2)] n
      of Some v \<Rightarrow> v | None \<Rightarrow> 0)"

definition sample_decls :: "string decls" where
  "sample_decls =
     \<lparr>macro = sample_macro, EIO = 5, EINVAL = 22, ENODEV = 19,
      IS_ERR_VALUE = (\<lambda>x. - 4095 \<le> x \<and> x < 0),
      V4L2_DV_BT_CEA = (\<lambda>n. \<lparr>bt_flags = 1, bt_rest = n\<rparr>),
      v4l2_match_dv_timings = (\<lambda>a b delta. bt_rest a = bt_rest b)\<rparr>"

text \<open>An environment in which every register reads as \<open>v\<close> and every call succeeds.\<close>

definition sample_env :: "u32 \<Rightarrow> string env" where
  "sample_env v =
     \<lparr>readl_val = (\<lambda>h a. v), subdev_ret = (\<lambda>h s f. 0), regulator_ret = (\<lambda>h. 0),
      pm_core = (\<lambda>h. Pm_callback)\<rparr>"

definition sample_dev :: "string hdmi_device" where
  "sample_dev =
     \<lparr>regs = 0, irq = 0, phy_sd = Some 1, mhl_sd = Some 2,
      cur_conf = Some hdmi_timings_480p,
      cur_conf_dirty = 1,
      cur_timings = V4L2_DV_BT_CEA sample_decls ''720X480P59_94'',
      res = \<lparr>hdmi = 10, sclk_hdmi = 11, sclk_pixel = 12, sclk_hdmiphy = 13, hdmiphy = 14,
             regul_bulk = 15, regul_count = 4\<rparr>\<rparr>"

definition sample_machine :: "string machine" where
  "sample_machine = \<lparr>hdev = sample_dev, io = []\<rparr>"

text \<open>An environment in which the subdevices refuse every call.\<close>

definition sample_env_refusing :: "string env" where
  "sample_env_refusing = (sample_env 0)\<lparr>subdev_ret := (\<lambda>h s f. - 22)\<rparr>"

text \<open>An environment in which the PHY accepts every call and the MHL repeater refuses.\<close>

definition sample_env_mhl_refusing :: "u32 \<Rightarrow> string env" where
  "sample_env_mhl_refusing v =
     (sample_env v)\<lparr>subdev_ret := (\<lambda>h s f. if s = 2 then - 22 else 0)\<rparr>"

text \<open>The sample machine after a successful \<open>hdmi_conf_apply\<close>.\<close>

definition sample_applied :: "string machine" where
  "sample_applied =
     (conf_apply_programmed sample_decls (sample_env 0) hdmi_timings_480p sample_machine)
       \<lparr>hdev := sample_dev\<lparr>cur_conf_dirty := 0\<rparr>\<rparr>"

text \<open>The applied sample machine after a suspend, and after the resume that follows.\<close>

definition sample_suspended :: "string machine" where
  "sample_suspended = snd (hdmi_runtime_suspend sample_decls (sample_env 0) sample_applied)"

definition sample_resumed :: "string machine" where
  "sample_resumed = snd (hdmi_runtime_resume sample_decls (sample_env 0) sample_suspended)"

text \<open>
  Synthetic timings: the shape of the 480p entry with the active windows and the
  interlace members replaced.
\<close>

definition synthetic_timings :: "hdmi_pulse \<Rightarrow> hdmi_pulse \<Rightarrow> u32 \<Rightarrow> u32 \<Rightarrow> u32 \<Rightarrow> hdmi_timings" where
  "synthetic_timings h v il hs off =
     hdmi_timings_480p\<lparr>hact := h, vact_0 := v, interlaced := il,
       hsyn := \<lparr>beg = hs, endp = hs + 62\<rparr>, vsyn_off := off\<rparr>"

text \<open>
  The example of the specification (active windows 100 to 900 and 10 to 510, interlaced,
  horizontal sync at 16, field offset 1100), and timings whose horizontal size and
  sync-transition value do not fit the register fields.
\<close>

definition example_timings :: hdmi_timings where
  "example_timings =
     synthetic_timings \<lparr>beg = 100, endp = 900\<rparr> \<lparr>beg = 10, endp = 510\<rparr> 1 16 1100"

definition oversize_timings :: hdmi_timings where
  "oversize_timings =
     synthetic_timings \<lparr>beg = 0, endp = 0x10000\<rparr> \<lparr>beg = 10, endp = 510\<rparr> 1 0x1000 0"

section \<open>Basic facts\<close>

subsection \<open>The primitives\<close>

lemma hdev_emit [simp]: "hdev (emit e m) = hdev m"
  by (simp add: emit_def)

lemma io_emit [simp]: "io (emit e m) = io m @ [e]"
  by (simp add: emit_def)

lemma hdev_hdmi_write_mask [simp]: "hdev (hdmi_write_mask E r v k m) = hdev m"
  by (simp add: hdmi_write_mask_def readl_def writel_def)

lemma io_hdmi_write_mask:
  "io (hdmi_write_mask E r v k m) =
     io m @ [Readl (regs (hdev m) + r),
             Writel (regs (hdev m) + r)
               ((v AND k) OR (readl_val E (io m) (regs (hdev m) + r) AND NOT k))]"
  by (simp add: hdmi_write_mask_def readl_def writel_def)

lemma hdev_hdmi_writeb [simp]: "hdev (hdmi_writeb r v m) = hdev m"
  by (simp add: hdmi_writeb_def writeb_def)

lemma io_hdmi_writeb: "io (hdmi_writeb r v m) = io m @ [Writeb (regs (hdev m) + r) v]"
  by (simp add: hdmi_writeb_def writeb_def)

lemma hdev_hdmi_writebn [simp]: "hdev (hdmi_writebn r n v m) = hdev m"
  by (simp add: hdmi_writebn_def writeb_def Let_def)

lemma io_hdmi_writebn_2:
  "io (hdmi_writebn r 2 v m) =
     io m @ [Writeb (regs (hdev m) + r + 4) (ucast (drop_bit 8 v)),
             Writeb (regs (hdev m) + r) (ucast v)]"
  by (simp add: hdmi_writebn_def writeb_def Let_def)

lemma io_hdmi_writebn_3:
  "io (hdmi_writebn r 3 v m) =
     io m @ [Writeb (regs (hdev m) + r + 8) (ucast (drop_bit 16 v)),
             Writeb (regs (hdev m) + r + 4) (ucast (drop_bit 8 v)),
             Writeb (regs (hdev m) + r) (ucast v)]"
  by (simp add: hdmi_writebn_def writeb_def Let_def)

lemma hdev_mdelay [simp]: "hdev (mdelay n m) = hdev m"
  by (simp add: mdelay_def)

lemma io_mdelay [simp]: "io (mdelay n m) = io m @ [Mdelay n]"
  by (simp add: mdelay_def)

lemma hdev_hdmi_dumpregs [simp]: "hdev (hdmi_dumpregs p m) = hdev m"
  by (simp add: hdmi_dumpregs_def)

lemma io_hdmi_dumpregs [simp]: "io (hdmi_dumpregs p m) = io m @ [Dumpregs p]"
  by (simp add: hdmi_dumpregs_def)

lemma hdev_clk [simp]:
  "hdev (clk_enable c m) = hdev m"
  "hdev (clk_disable c m) = hdev m"
  "hdev (clk_set_parent c q m) = hdev m"
  by (simp_all add: clk_enable_def clk_disable_def clk_set_parent_def)

lemma io_clk [simp]:
  "io (clk_enable c m) = io m @ [Clk_enable c]"
  "io (clk_disable c m) = io m @ [Clk_disable c]"
  "io (clk_set_parent c q m) = io m @ [Clk_set_parent c q]"
  by (simp_all add: clk_enable_def clk_disable_def clk_set_parent_def)

lemma hdev_v4l2_subdev_call [simp]: "hdev (snd (v4l2_subdev_call D E sd f m)) = hdev m"
  by (simp add: v4l2_subdev_call_def split: option.splits)

lemma io_v4l2_subdev_call:
  "io (snd (v4l2_subdev_call D E sd f m)) =
     io m @ (case sd of None \<Rightarrow> [] | Some s \<Rightarrow> [Subdev_call s f])"
  by (simp add: v4l2_subdev_call_def split: option.splits)

lemma hdev_hdmi_reg_init [simp]: "hdev (hdmi_reg_init D E m) = hdev m"
  by (simp add: hdmi_reg_init_def Let_def)

lemma hdev_hdmi_timing_apply [simp]: "hdev (hdmi_timing_apply D E t m) = hdev m"
  by (simp add: hdmi_timing_apply_def Let_def)

lemma adds_only_refl [simp]: "adds_only P m m"
  by (simp add: adds_only_def)

lemma adds_only_new_io: "adds_only P m m1 \<Longrightarrow> list_all P (new_io m m1)"
  by (auto simp: adds_only_def new_io_def)

lemma adds_only_hdmi_write_mask:
  "P (Readl (regs (hdev m1) + r)) \<Longrightarrow> (\<And>v. P (Writel (regs (hdev m1) + r) v)) \<Longrightarrow>
   adds_only P m m1 \<Longrightarrow> adds_only P m (hdmi_write_mask E r v k m1)"
  by (auto simp: adds_only_def io_hdmi_write_mask)

lemma adds_only_hdmi_writeb:
  "(\<And>a v. P (Writeb a v)) \<Longrightarrow> adds_only P m m1 \<Longrightarrow> adds_only P m (hdmi_writeb r v m1)"
  by (auto simp: adds_only_def io_hdmi_writeb)

lemma adds_only_hdmi_writebn:
  "(\<And>a v. P (Writeb a v)) \<Longrightarrow> adds_only P m m1 \<Longrightarrow> adds_only P m (hdmi_writebn r n v m1)"
  by (auto simp: adds_only_def hdmi_writebn_def writeb_def Let_def)

lemma adds_only_mdelay:
  "P (Mdelay n) \<Longrightarrow> adds_only P m m1 \<Longrightarrow> adds_only P m (mdelay n m1)"
  by (auto simp: adds_only_def)

lemma adds_only_v4l2_subdev_call:
  "(\<And>s. P (Subdev_call s f)) \<Longrightarrow> adds_only P m m1 \<Longrightarrow>
   adds_only P m (snd (v4l2_subdev_call D E sd f m1))"
  by (auto simp: adds_only_def io_v4l2_subdev_call split: option.splits)

lemma adds_only_hdmi_reg_init:
  "(\<And>a. P (Readl a)) \<Longrightarrow> (\<And>a v. P (Writel a v)) \<Longrightarrow> (\<And>a v. P (Writeb a v)) \<Longrightarrow>
   adds_only P m m1 \<Longrightarrow> adds_only P m (hdmi_reg_init D E m1)"
  unfolding hdmi_reg_init_def Let_def
  by (intro adds_only_hdmi_writeb adds_only_hdmi_write_mask) auto

lemma adds_only_hdmi_timing_apply:
  "(\<And>a. P (Readl a)) \<Longrightarrow> (\<And>a v. P (Writel a v)) \<Longrightarrow> (\<And>a v. P (Writeb a v)) \<Longrightarrow>
   adds_only P m m1 \<Longrightarrow> adds_only P m (hdmi_timing_apply D E t m1)"
  unfolding hdmi_timing_apply_def Let_def
  by (auto intro!: adds_only_hdmi_writeb adds_only_hdmi_write_mask adds_only_hdmi_writebn)

subsection \<open>Applying the configuration\<close>

lemma hdev_conf_apply_phy_reset [simp]: "hdev (conf_apply_phy_reset D E m) = hdev m"
  by (simp add: conf_apply_phy_reset_def)

lemma hdev_conf_apply_phy_timings [simp]: "hdev (snd (conf_apply_phy_timings D E m)) = hdev m"
  by (simp add: conf_apply_phy_timings_def)

lemma hdev_conf_apply_core_reset [simp]: "hdev (conf_apply_core_reset D E m) = hdev m"
  by (simp add: conf_apply_core_reset_def)

lemma hdev_conf_apply_programmed [simp]: "hdev (conf_apply_programmed D E t m) = hdev m"
  by (simp add: conf_apply_programmed_def)

lemma hdmi_conf_apply_stages:
  "hdmi_conf_apply D E m =
     (if cur_conf_dirty (hdev m) = 0 then Inr (0, m)
      else if fst (conf_apply_phy_timings D E m) \<noteq> 0 then Inr (conf_apply_phy_timings D E m)
      else case cur_conf (hdev m) of
             None \<Rightarrow> Inl Null_dereference
           | Some t \<Rightarrow>
               Inr (0, (conf_apply_programmed D E t m)
                         \<lparr>hdev := (hdev m)\<lparr>cur_conf_dirty := 0\<rparr>\<rparr>))"
  by (simp add: hdmi_conf_apply_def conf_apply_phy_reset_def conf_apply_phy_timings_def
      conf_apply_core_reset_def conf_apply_programmed_def Let_def case_prod_beta
      split: option.splits)

lemma io_conf_apply_phy_reset:
  "io (conf_apply_phy_reset D E m) =
     io m @
     [Readl (regs (hdev m) + macro D ''HDMI_PHY_RSTOUT''),
      Writel (regs (hdev m) + macro D ''HDMI_PHY_RSTOUT'')
        (macro D ''HDMI_PHY_SW_RSTOUT'' OR
         (readl_val E (io m) (regs (hdev m) + macro D ''HDMI_PHY_RSTOUT'')
            AND NOT (macro D ''HDMI_PHY_SW_RSTOUT''))),
      Mdelay 10,
      Readl (regs (hdev m) + macro D ''HDMI_PHY_RSTOUT''),
      Writel (regs (hdev m) + macro D ''HDMI_PHY_RSTOUT'')
        (readl_val E
           (io m @
            [Readl (regs (hdev m) + macro D ''HDMI_PHY_RSTOUT''),
             Writel (regs (hdev m) + macro D ''HDMI_PHY_RSTOUT'')
               (macro D ''HDMI_PHY_SW_RSTOUT'' OR
                (readl_val E (io m) (regs (hdev m) + macro D ''HDMI_PHY_RSTOUT'')
                   AND NOT (macro D ''HDMI_PHY_SW_RSTOUT''))),
             Mdelay 10])
           (regs (hdev m) + macro D ''HDMI_PHY_RSTOUT'')
         AND NOT (macro D ''HDMI_PHY_SW_RSTOUT'')),
      Mdelay 10]"
  by (simp add: conf_apply_phy_reset_def io_hdmi_write_mask)

lemma adds_only_conf_apply_phy_reset:
  "(\<And>a. P (Readl a)) \<Longrightarrow> (\<And>a v. P (Writel a v)) \<Longrightarrow> (\<And>n. P (Mdelay n)) \<Longrightarrow>
   adds_only P m m1 \<Longrightarrow> adds_only P m (conf_apply_phy_reset D E m1)"
  unfolding conf_apply_phy_reset_def
  by (intro adds_only_mdelay adds_only_hdmi_write_mask) auto

lemma adds_only_conf_apply_phy_timings:
  "(\<And>a. P (Readl a)) \<Longrightarrow> (\<And>a v. P (Writel a v)) \<Longrightarrow> (\<And>n. P (Mdelay n)) \<Longrightarrow>
   (\<And>s f. P (Subdev_call s f)) \<Longrightarrow>
   adds_only P m (snd (conf_apply_phy_timings D E m))"
  unfolding conf_apply_phy_timings_def
  by (intro adds_only_v4l2_subdev_call adds_only_conf_apply_phy_reset) auto

lemma adds_only_conf_apply_programmed:
  "(\<And>a. P (Readl a)) \<Longrightarrow> (\<And>a v. P (Writel a v)) \<Longrightarrow> (\<And>a v. P (Writeb a v)) \<Longrightarrow>
   (\<And>n. P (Mdelay n)) \<Longrightarrow> (\<And>s f. P (Subdev_call s f)) \<Longrightarrow>
   adds_only P m (conf_apply_programmed D E t m)"
  unfolding conf_apply_programmed_def conf_apply_core_reset_def
  by (intro adds_only_hdmi_timing_apply adds_only_hdmi_reg_init adds_only_mdelay
      adds_only_hdmi_write_mask adds_only_conf_apply_phy_timings) auto

lemma adds_only_hdmi_conf_apply:
  assumes "hdmi_conf_apply D E m = Inr (ret, m1)"
    and "\<And>a. P (Readl a)" "\<And>a v. P (Writel a v)" "\<And>a v. P (Writeb a v)"
    and "\<And>n. P (Mdelay n)" "\<And>s f. P (Subdev_call s f)"
  shows "adds_only P m m1"
proof -
  have a: "adds_only P m (snd (conf_apply_phy_timings D E m))"
    by (rule adds_only_conf_apply_phy_timings) (rule assms)+
  have b: "\<And>t. adds_only P m (conf_apply_programmed D E t m)"
    by (rule adds_only_conf_apply_programmed) (rule assms)+
  show ?thesis
    using assms(1) a b
    by (auto simp: hdmi_conf_apply_stages adds_only_def split: if_splits option.splits)
qed

lemma hdev_conf_apply_phy_timingsD:
  "conf_apply_phy_timings D E m = (r, m1) \<Longrightarrow> hdev m1 = hdev m"
  using hdev_conf_apply_phy_timings [of D E m] by simp

lemma hdev_hdmi_conf_apply:
  assumes "hdmi_conf_apply D E m = Inr (ret, m1)"
  shows "hdev m1 = hdev m \<or> hdev m1 = (hdev m)\<lparr>cur_conf_dirty := 0\<rparr>"
  using assms
  by (auto simp: hdmi_conf_apply_stages split: if_splits option.splits
      dest: hdev_conf_apply_phy_timingsD)

lemma hdmi_conf_apply_dirty_not_skipped:
  assumes "cur_conf_dirty (hdev m) \<noteq> 0"
  shows "hdmi_conf_apply D E m \<noteq> Inr (0, m)"
proof
  assume a: "hdmi_conf_apply D E m = Inr (0, m)"
  show False
  proof (cases "fst (conf_apply_phy_timings D E m) = 0")
    case True
    show False
    proof (cases "cur_conf (hdev m)")
      case None
      with a assms True show False
        by (simp add: hdmi_conf_apply_stages)
    next
      case (Some t)
      let ?x = "(conf_apply_programmed D E t m)\<lparr>hdev := (hdev m)\<lparr>cur_conf_dirty := 0\<rparr>\<rparr>"
      from Some assms True have "hdmi_conf_apply D E m = Inr (0, ?x)"
        by (simp add: hdmi_conf_apply_stages)
      with a have "m = ?x" by simp
      then have "cur_conf_dirty (hdev m) = cur_conf_dirty (hdev ?x)"
        by (rule arg_cong)
      with assms show False by simp
    qed
  next
    case False
    with a assms show False
      by (auto simp: hdmi_conf_apply_stages prod_eq_iff)
  qed
qed

lemma hdev_hdmi_phy_wait [simp]: "hdev (snd (hdmi_phy_wait D E n m)) = hdev m"
  by (induction n arbitrary: m) (simp_all add: hdmi_read_def readl_def Let_def)

lemma fst_hdmi_phy_wait_le: "fst (hdmi_phy_wait D E n m) \<le> n"
  by (induction n arbitrary: m) (auto simp: hdmi_read_def readl_def Let_def le_SucI)

lemma io_hdmi_phy_wait:
  "io (snd (hdmi_phy_wait D E n m)) =
     io m @
     concat (replicate (n - fst (hdmi_phy_wait D E n m))
               [Readl (regs (hdev m) + macro D ''HDMI_PHY_STATUS''), Mdelay 1]) @
     (if fst (hdmi_phy_wait D E n m) = 0 then []
      else [Readl (regs (hdev m) + macro D ''HDMI_PHY_STATUS'')])"
proof (induction n arbitrary: m)
  case 0
  then show ?case by simp
next
  case (Suc n)
  show ?case
  proof (cases "readl_val E (io m) (regs (hdev m) + macro D ''HDMI_PHY_STATUS'')
                  AND macro D ''HDMI_PHY_STATUS_READY'' = 0")
    case True
    let ?m1 = "mdelay 1 (emit (Readl (regs (hdev m) + macro D ''HDMI_PHY_STATUS'')) m)"
    have w: "hdmi_phy_wait D E (Suc n) m = hdmi_phy_wait D E n ?m1"
      using True by (simp add: hdmi_read_def readl_def)
    have le: "fst (hdmi_phy_wait D E n ?m1) \<le> n"
      by (rule fst_hdmi_phy_wait_le)
    have "Suc n - fst (hdmi_phy_wait D E n ?m1) = Suc (n - fst (hdmi_phy_wait D E n ?m1))"
      using le by simp
    then show ?thesis
      using Suc.IH [of ?m1] unfolding w by simp
  next
    case False
    then show ?thesis by (simp add: hdmi_read_def readl_def)
  qed
qed

lemma hdmi_phy_wait_locked:
  "fst (hdmi_phy_wait D E n m) \<noteq> 0 \<Longrightarrow>
   \<exists>h. io (snd (hdmi_phy_wait D E n m)) =
         h @ [Readl (regs (hdev m) + macro D ''HDMI_PHY_STATUS'')] \<and>
       readl_val E h (regs (hdev m) + macro D ''HDMI_PHY_STATUS'')
         AND macro D ''HDMI_PHY_STATUS_READY'' \<noteq> 0 \<and>
       adds_only (\<lambda>e. \<not> is_clk_op e \<and> \<not> is_reg_write e) m \<lparr>hdev = hdev m, io = h\<rparr>"
proof (induction n arbitrary: m)
  case 0
  then show ?case by simp
next
  case (Suc n)
  show ?case
  proof (cases "readl_val E (io m) (regs (hdev m) + macro D ''HDMI_PHY_STATUS'')
                  AND macro D ''HDMI_PHY_STATUS_READY'' = 0")
    case True
    let ?m1 = "mdelay 1 (emit (Readl (regs (hdev m) + macro D ''HDMI_PHY_STATUS'')) m)"
    have w: "hdmi_phy_wait D E (Suc n) m = hdmi_phy_wait D E n ?m1"
      using True by (simp add: hdmi_read_def readl_def)
    from Suc.prems have "fst (hdmi_phy_wait D E n ?m1) \<noteq> 0" unfolding w by simp
    from Suc.IH [OF this] obtain h where
      h: "io (snd (hdmi_phy_wait D E n ?m1)) =
            h @ [Readl (regs (hdev m) + macro D ''HDMI_PHY_STATUS'')]"
         "readl_val E h (regs (hdev m) + macro D ''HDMI_PHY_STATUS'')
            AND macro D ''HDMI_PHY_STATUS_READY'' \<noteq> 0"
         "adds_only (\<lambda>e. \<not> is_clk_op e \<and> \<not> is_reg_write e) ?m1 \<lparr>hdev = hdev ?m1, io = h\<rparr>"
      by auto
    from h(3) have "adds_only (\<lambda>e. \<not> is_clk_op e \<and> \<not> is_reg_write e) m \<lparr>hdev = hdev m, io = h\<rparr>"
      by (auto simp: adds_only_def)
    with h(1,2) show ?thesis unfolding w by auto
  next
    case False
    then show ?thesis by (auto simp: hdmi_read_def readl_def adds_only_def)
  qed
qed

lemma hdmi_phy_wait_never:
  "(\<forall>h. readl_val E h (regs (hdev m) + macro D ''HDMI_PHY_STATUS'')
          AND macro D ''HDMI_PHY_STATUS_READY'' = 0) \<Longrightarrow>
   fst (hdmi_phy_wait D E n m) = 0"
  by (induction n arbitrary: m) (simp_all add: hdmi_read_def readl_def)

subsection \<open>Selecting timings\<close>

lemma hdmi_timings_find_le: "hdmi_timings_find D es t i \<le> i + length es"
proof (induction es arbitrary: i)
  case Nil
  then show ?case by simp
next
  case (Cons e es)
  from Cons.IH [of "Suc i"] show ?case by simp
qed

lemma hdmi_timings_find_ge: "i \<le> hdmi_timings_find D es t i"
proof (induction es arbitrary: i)
  case Nil
  then show ?case by simp
next
  case (Cons e es)
  from Cons.IH [of "Suc i"] show ?case by (simp add: Suc_leD)
qed

lemma hdmi_timings_find_none:
  "hdmi_timings_find D es t i = i + length es \<longleftrightarrow>
     (\<forall>e \<in> set es. \<not> v4l2_match_dv_timings D (dv_timings e) t 0)"
proof (induction es arbitrary: i)
  case Nil
  then show ?case by simp
next
  case (Cons e es)
  have "hdmi_timings_find D es t (Suc i) \<noteq> i"
    using hdmi_timings_find_ge [of "Suc i" D es t] by simp
  then show ?case
    using Cons.IH [of "Suc i"] by auto
qed

lemma hdmi_timings_find_first:
  "hdmi_timings_find D es t i < i + length es \<Longrightarrow>
     v4l2_match_dv_timings D (dv_timings (es ! (hdmi_timings_find D es t i - i))) t 0 \<and>
     (\<forall>j < hdmi_timings_find D es t i - i.
        \<not> v4l2_match_dv_timings D (dv_timings (es ! j)) t 0)"
proof (induction es arbitrary: i)
  case Nil
  then show ?case by simp
next
  case (Cons e es)
  show ?case
  proof (cases "v4l2_match_dv_timings D (dv_timings e) t 0")
    case True
    then show ?thesis by simp
  next
    case False
    let ?k = "hdmi_timings_find D es t (Suc i)"
    have ge: "Suc i \<le> ?k" by (rule hdmi_timings_find_ge)
    from Cons.prems False have "?k < Suc i + length es" by simp
    from Cons.IH [OF this] have
      ih: "v4l2_match_dv_timings D (dv_timings (es ! (?k - Suc i))) t 0"
          "\<forall>j < ?k - Suc i. \<not> v4l2_match_dv_timings D (dv_timings (es ! j)) t 0"
      by simp_all
    from ge have k: "?k - i = Suc (?k - Suc i)" by simp
    have "\<forall>j < ?k - i. \<not> v4l2_match_dv_timings D (dv_timings ((e # es) ! j)) t 0"
    proof (intro allI impI)
      fix j assume "j < ?k - i"
      then show "\<not> v4l2_match_dv_timings D (dv_timings ((e # es) ! j)) t 0"
        using False ih(2) k by (cases j) auto
    qed
    then show ?thesis
      using False ih(1) k by simp
  qed
qed

subsection \<open>Power and stream stages\<close>

lemma hdev_hdmi_resource_poweron [simp]: "hdev (snd (hdmi_resource_poweron E m)) = hdev m"
  by (simp add: hdmi_resource_poweron_def regulator_bulk_enable_def Let_def)

lemma hdev_hdmi_resource_poweroff [simp]: "hdev (hdmi_resource_poweroff m) = hdev m"
  by (simp add: hdmi_resource_poweroff_def regulator_bulk_disable_def Let_def)

lemma hdev_hdmi_runtime_resume [simp]: "hdev (snd (hdmi_runtime_resume D E m)) = hdev m"
  by (simp add: hdmi_runtime_resume_def Let_def case_prod_beta)

lemma hdev_hdmi_runtime_suspend [simp]:
  "hdev (snd (hdmi_runtime_suspend D E m)) = (hdev m)\<lparr>cur_conf_dirty := 1\<rparr>"
  by (simp add: hdmi_runtime_suspend_def Let_def case_prod_beta)

lemma hdev_streamon_phy_start [simp]: "hdev (snd (streamon_phy_start D E m)) = hdev m"
  by (simp add: streamon_phy_start_def)

lemma hdev_streamon_wait [simp]: "hdev (snd (streamon_wait D E m)) = hdev m"
  by (simp add: streamon_wait_def)

lemma hdev_streamon_mhl_start [simp]: "hdev (snd (streamon_mhl_start D E m)) = hdev m"
  by (simp add: streamon_mhl_start_def)

lemma hdev_streamon_phy_stop [simp]: "hdev (streamon_phy_stop D E m) = hdev m"
  by (simp add: streamon_phy_stop_def)

lemma hdev_streamon_enable [simp]: "hdev (streamon_enable D E m) = hdev m"
  by (simp add: streamon_enable_def)

lemma hdmi_streamon_stages:
  "hdmi_streamon D E m =
     (case hdmi_conf_apply D E m of
        Inl f \<Rightarrow> Inl f
      | Inr (ret, m1) \<Rightarrow>
          if ret \<noteq> 0 then Inr (ret, m1)
          else if fst (streamon_phy_start D E m1) \<noteq> 0 then Inr (streamon_phy_start D E m1)
          else if fst (streamon_wait D E m1) = 0 then
            Inr (- EIO D,
                 hdmi_dumpregs ''hdmiphy - s_stream''
                   (streamon_phy_stop D E (snd (streamon_wait D E m1))))
          else if mhl_sd (hdev m1) \<noteq> None \<and> fst (streamon_mhl_start D E m1) \<noteq> 0 then
            Inr (- EIO D,
                 hdmi_dumpregs ''mhl - s_stream''
                   (streamon_phy_stop D E (snd (streamon_mhl_start D E m1))))
          else Inr (0, streamon_enable D E (snd (streamon_mhl_start D E m1))))"
  by (simp add: hdmi_streamon_def streamon_phy_start_def streamon_wait_def
      streamon_mhl_start_def streamon_phy_stop_def streamon_enable_def Let_def case_prod_beta
      split: sum.splits)

subsection \<open>The sample platform\<close>

lemma hdev_sample_machine [simp]: "hdev sample_machine = sample_dev"
  by (simp add: sample_machine_def)

lemma sample_dev_simps [simp]:
  "cur_conf_dirty sample_dev = 1"
  "cur_conf sample_dev = Some hdmi_timings_480p"
  "phy_sd sample_dev = Some 1"
  "mhl_sd sample_dev = Some 2"
  by (simp_all add: sample_dev_def)

lemma hdev_sample_applied [simp]: "hdev sample_applied = sample_dev\<lparr>cur_conf_dirty := 0\<rparr>"
  by (simp add: sample_applied_def)

lemma sample_phy_accepts [simp]:
  "fst (conf_apply_phy_timings sample_decls (sample_env v) sample_machine) = 0"
  by (simp add: conf_apply_phy_timings_def v4l2_subdev_call_def sample_env_def)

lemma sample_phy_refuses [simp]:
  "fst (conf_apply_phy_timings sample_decls sample_env_refusing sample_machine) = - 22"
  by (simp add: conf_apply_phy_timings_def v4l2_subdev_call_def sample_env_refusing_def)

lemma hdmi_conf_apply_sample:
  "hdmi_conf_apply sample_decls (sample_env 0) sample_machine = Inr (0, sample_applied)"
  by (simp add: hdmi_conf_apply_stages sample_applied_def)

lemma hdmi_conf_apply_sample_refused:
  "hdmi_conf_apply sample_decls sample_env_refusing sample_machine =
     Inr (- 22, snd (conf_apply_phy_timings sample_decls sample_env_refusing sample_machine))"
  by (simp add: hdmi_conf_apply_stages prod_eq_iff)

lemma sample_no_match:
  "\<forall>e \<in> set (hdmi_timings_tab sample_decls).
     \<not> v4l2_match_dv_timings sample_decls (dv_timings e) \<lparr>bt_flags = 1, bt_rest = ''640X480P60''\<rparr> 0"
  by (simp add: hdmi_timings_tab_def sample_decls_def)

subsection \<open>The stages of starting the stream\<close>

lemma io_streamon_phy_start:
  "io (snd (streamon_phy_start D E m)) =
     io m @ (case phy_sd (hdev m) of None \<Rightarrow> [] | Some s \<Rightarrow> [Subdev_call s (Video_s_stream 1)])"
  by (simp add: streamon_phy_start_def io_v4l2_subdev_call)

lemma fst_streamon_wait_le: "fst (streamon_wait D E m) \<le> 100"
  unfolding streamon_wait_def by (rule fst_hdmi_phy_wait_le)

lemma io_streamon_wait:
  "io (snd (streamon_wait D E m)) =
     io (snd (streamon_phy_start D E m)) @
     concat (replicate (100 - fst (streamon_wait D E m))
               [Readl (regs (hdev m) + macro D ''HDMI_PHY_STATUS''), Mdelay 1]) @
     (if fst (streamon_wait D E m) = 0 then []
      else [Readl (regs (hdev m) + macro D ''HDMI_PHY_STATUS'')])"
  unfolding streamon_wait_def
  using io_hdmi_phy_wait [of D E 100 "snd (streamon_phy_start D E m)"] by simp

lemma io_streamon_mhl_start:
  "io (snd (streamon_mhl_start D E m)) =
     io (snd (streamon_wait D E m)) @
     (case mhl_sd (hdev m) of None \<Rightarrow> [] | Some s \<Rightarrow> [Subdev_call s (Video_s_stream 1)])"
  by (simp add: streamon_mhl_start_def io_v4l2_subdev_call)

lemma io_streamon_phy_stop:
  "io (streamon_phy_stop D E m) =
     io m @ (case phy_sd (hdev m) of None \<Rightarrow> [] | Some s \<Rightarrow> [Subdev_call s (Video_s_stream 0)])"
  by (simp add: streamon_phy_stop_def io_v4l2_subdev_call)

lemma streamon_wait_never:
  "(\<forall>h. readl_val E h (regs (hdev m) + macro D ''HDMI_PHY_STATUS'')
          AND macro D ''HDMI_PHY_STATUS_READY'' = 0) \<Longrightarrow>
   fst (streamon_wait D E m) = 0"
  unfolding streamon_wait_def
  using hdmi_phy_wait_never [of E "snd (streamon_phy_start D E m)" D 100] by simp

lemma adds_only_streamon_wait:
  "adds_only (\<lambda>e. \<not> is_clk_op e \<and> \<not> is_reg_write e) m (snd (streamon_wait D E m))"
  by (auto simp: adds_only_def io_streamon_wait io_streamon_phy_start list_all_iff
      split: option.splits)

lemma adds_only_streamon_mhl_start:
  "adds_only (\<lambda>e. \<not> is_clk_op e \<and> \<not> is_reg_write e) m (snd (streamon_mhl_start D E m))"
  by (auto simp: adds_only_def io_streamon_mhl_start io_streamon_wait io_streamon_phy_start
      list_all_iff split: option.splits)

lemma streamon_wait_locked:
  assumes "fst (streamon_wait D E m) \<noteq> 0"
  shows "\<exists>h. io (snd (streamon_wait D E m)) =
             h @ [Readl (regs (hdev m) + macro D ''HDMI_PHY_STATUS'')] \<and>
           readl_val E h (regs (hdev m) + macro D ''HDMI_PHY_STATUS'')
             AND macro D ''HDMI_PHY_STATUS_READY'' \<noteq> 0"
  using assms hdmi_phy_wait_locked [of D E 100 "snd (streamon_phy_start D E m)"]
  unfolding streamon_wait_def by auto

lemma hdmi_conf_apply_devD:
  assumes "hdmi_conf_apply D E m = Inr (r, m1)"
  shows "regs (hdev m1) = regs (hdev m)" "res (hdev m1) = res (hdev m)"
    "phy_sd (hdev m1) = phy_sd (hdev m)" "mhl_sd (hdev m1) = mhl_sd (hdev m)"
    "cur_conf (hdev m1) = cur_conf (hdev m)" "cur_timings (hdev m1) = cur_timings (hdev m)"
    "cur_conf_dirty (hdev m1) = cur_conf_dirty (hdev m) \<or> cur_conf_dirty (hdev m1) = 0"
  using hdev_hdmi_conf_apply [OF assms] by auto

lemma no_clk_hdmi_conf_apply:
  assumes "hdmi_conf_apply D E m = Inr (r, m1)"
  shows "list_all (\<lambda>e. \<not> is_clk_op e) (new_io m m1)"
  by (rule adds_only_new_io, rule adds_only_hdmi_conf_apply [OF assms]) simp_all

lemma io_streamon_enable_explicit:
  "io (streamon_enable D E m) =
     (let s = sclk_hdmi (res (hdev m));
          c0 = regs (hdev m) + macro D ''HDMI_CON_0'';
          tg = regs (hdev m) + macro D ''HDMI_TG_CMD'';
          l1 = io m @ [Clk_disable s, Clk_set_parent s (sclk_hdmiphy (res (hdev m))),
                       Clk_enable s];
          l2 = l1 @ [Readl c0,
                     Writel c0 (macro D ''HDMI_EN'' OR
                                (readl_val E l1 c0 AND NOT (macro D ''HDMI_EN'')))];
          l3 = l2 @ [Readl tg,
                     Writel tg (macro D ''HDMI_TG_EN'' OR
                                (readl_val E l2 tg AND NOT (macro D ''HDMI_TG_EN'')))]
      in l3 @ [Dumpregs ''streamon''])"
  by (simp add: streamon_enable_def io_hdmi_write_mask Let_def)

lemma streamon_phy_startD:
  "streamon_phy_start D E m = (r, m1) \<Longrightarrow>
     hdev m1 = hdev m \<and>
     io m1 = io m @ (case phy_sd (hdev m) of None \<Rightarrow> []
                     | Some s \<Rightarrow> [Subdev_call s (Video_s_stream 1)])"
  using hdev_streamon_phy_start [of D E m] io_streamon_phy_start [of D E m] by simp

lemma hdmi_streamon_extends:
  assumes "hdmi_streamon D E m = Inr (ret, m2)"
  shows "\<exists>r1 m1 xs. hdmi_conf_apply D E m = Inr (r1, m1) \<and> io m2 = io m1 @ xs \<and>
           hdev m2 = hdev m1"
proof -
  from assms obtain r1 m1 where ca: "hdmi_conf_apply D E m = Inr (r1, m1)"
    by (auto simp: hdmi_streamon_def split: sum.splits)
  have "\<exists>xs. io m2 = io m1 @ xs" "hdev m2 = hdev m1"
    using assms
    by (auto simp: hdmi_streamon_stages ca io_streamon_phy_stop io_streamon_mhl_start
        io_streamon_wait io_streamon_phy_start io_streamon_enable_explicit Let_def
        split: if_splits dest: streamon_phy_startD)
  with ca show ?thesis by blast
qed

lemma hdmi_conf_apply_returns:
  "cur_conf (hdev m) \<noteq> None \<Longrightarrow> \<exists>ret m1. hdmi_conf_apply D E m = Inr (ret, m1)"
  by (auto simp: hdmi_conf_apply_stages)

lemma hdmi_streamon_returns:
  assumes "cur_conf (hdev m) \<noteq> None"
  shows "\<exists>ret m2. hdmi_streamon D E m = Inr (ret, m2)"
proof -
  from hdmi_conf_apply_returns [OF assms] obtain r1 m1 where
    "hdmi_conf_apply D E m = Inr (r1, m1)"
    by blast
  then show ?thesis
    by (cases "streamon_phy_start D E m1") (simp add: hdmi_streamon_stages)
qed

text \<open>Rules that open a \<open>let\<close>: by its value, or by a name for its value.\<close>

lemma Let_unfoldI: "f s \<Longrightarrow> Let s f"
  by simp

lemma Let_bindI: "(\<And>l. s = l \<Longrightarrow> f l) \<Longrightarrow> Let s f"
  by simp

text \<open>
  The answer and the log of the stage that hands the timings to the PHY, and what a
  start-stream on a dirty configuration returns: the refusal of the PHY with the machine
  of that stage, or a log that extends the whole programming.
\<close>

lemma fst_conf_apply_phy_timings:
  "fst (conf_apply_phy_timings D E m) =
     (case phy_sd (hdev m) of
        None \<Rightarrow> - ENODEV D
      | Some p \<Rightarrow> subdev_ret E (io (conf_apply_phy_reset D E m)) p
                   (Video_s_dv_timings (cur_timings (hdev m))))"
  by (simp add: conf_apply_phy_timings_def v4l2_subdev_call_def split: option.splits)

lemma io_conf_apply_phy_timings:
  "io (snd (conf_apply_phy_timings D E m)) =
     io (conf_apply_phy_reset D E m) @
     (case phy_sd (hdev m) of
        None \<Rightarrow> []
      | Some p \<Rightarrow> [Subdev_call p (Video_s_dv_timings (cur_timings (hdev m)))])"
  by (simp add: conf_apply_phy_timings_def io_v4l2_subdev_call)

lemma hdmi_streamon_dirty_cases:
  assumes "cur_conf_dirty (hdev m) \<noteq> 0" and "hdmi_streamon D E m = Inr (ret, m2)"
  shows "(fst (conf_apply_phy_timings D E m) \<noteq> 0 \<longrightarrow>
            ret = fst (conf_apply_phy_timings D E m) \<and>
            m2 = snd (conf_apply_phy_timings D E m)) \<and>
         (fst (conf_apply_phy_timings D E m) = 0 \<longrightarrow>
            (\<exists>t xs. cur_conf (hdev m) = Some t \<and>
               io m2 = io (conf_apply_programmed D E t m) @ xs \<and>
               hdev m2 = (hdev m)\<lparr>cur_conf_dirty := 0\<rparr>))"
proof (intro conjI impI)
  assume r: "fst (conf_apply_phy_timings D E m) \<noteq> 0"
  with assms(1) have "hdmi_conf_apply D E m = Inr (conf_apply_phy_timings D E m)"
    by (simp add: hdmi_conf_apply_stages)
  with r assms(2) show "ret = fst (conf_apply_phy_timings D E m)"
    and "m2 = snd (conf_apply_phy_timings D E m)"
    by (cases "conf_apply_phy_timings D E m", simp add: hdmi_streamon_stages)+
next
  assume a: "fst (conf_apply_phy_timings D E m) = 0"
  from hdmi_streamon_extends [OF assms(2)] obtain r1 m1 xs where
    ca: "hdmi_conf_apply D E m = Inr (r1, m1)" and x: "io m2 = io m1 @ xs"
    and h: "hdev m2 = hdev m1"
    by blast
  from ca a assms(1) obtain t where "cur_conf (hdev m) = Some t"
    and "io m1 = io (conf_apply_programmed D E t m)"
    and "hdev m1 = (hdev m)\<lparr>cur_conf_dirty := 0\<rparr>"
    by (auto simp: hdmi_conf_apply_stages split: option.splits)
  with x h show "\<exists>t xs. cur_conf (hdev m) = Some t \<and>
               io m2 = io (conf_apply_programmed D E t m) @ xs \<and>
               hdev m2 = (hdev m)\<lparr>cur_conf_dirty := 0\<rparr>"
    by auto
qed

subsection \<open>Starting the stream on the sample platform\<close>

lemma hdmi_phy_wait_ready:
  "readl_val E (io m) (regs (hdev m) + macro D ''HDMI_PHY_STATUS'')
     AND macro D ''HDMI_PHY_STATUS_READY'' \<noteq> 0 \<Longrightarrow>
   hdmi_phy_wait D E (Suc n) m =
     (Suc n, emit (Readl (regs (hdev m) + macro D ''HDMI_PHY_STATUS'')) m)"
  by (simp add: hdmi_read_def readl_def)

lemma sample_dev_more_simps [simp]:
  "regs sample_dev = 0"
  "res sample_dev = \<lparr>hdmi = 10, sclk_hdmi = 11, sclk_pixel = 12, sclk_hdmiphy = 13,
                      hdmiphy = 14, regul_bulk = 15, regul_count = 4\<rparr>"
  by (simp_all add: sample_dev_def)

lemma sample_macro_simps [simp]:
  "macro sample_decls ''HDMI_PHY_STATUS'' = 0x10014"
  "macro sample_decls ''HDMI_PHY_STATUS_READY'' = 1"
  "macro sample_decls ''HDMI_CON_0'' = 0x10000"
  "macro sample_decls ''HDMI_TG_CMD'' = 0x50000"
  "macro sample_decls ''HDMI_EN'' = 1"
  "macro sample_decls ''HDMI_TG_EN'' = 1"
  "EIO sample_decls = 5"
  by (simp_all add: sample_decls_def sample_macro_def)

lemma sample_env_simps [simp]:
  "readl_val (sample_env v) h a = v"
  "subdev_ret (sample_env v) h s f = 0"
  "readl_val (sample_env_mhl_refusing v) h a = v"
  "subdev_ret (sample_env_mhl_refusing v) h s f = (if s = 2 then - 22 else 0)"
  by (simp_all add: sample_env_def sample_env_mhl_refusing_def)

lemma hdmi_conf_apply_sample_applied:
  "hdmi_conf_apply sample_decls E sample_applied = Inr (0, sample_applied)"
  by (simp add: hdmi_conf_apply_stages)

lemma sample_phy_start [simp]:
  "streamon_phy_start sample_decls (sample_env v) sample_applied =
     (0, emit (Subdev_call 1 (Video_s_stream 1)) sample_applied)"
  "streamon_phy_start sample_decls (sample_env_mhl_refusing v) sample_applied =
     (0, emit (Subdev_call 1 (Video_s_stream 1)) sample_applied)"
  by (simp_all add: streamon_phy_start_def v4l2_subdev_call_def)

lemma sample_never_ready:
  "\<forall>h. readl_val (sample_env 0) h
         (regs (hdev sample_applied) + macro sample_decls ''HDMI_PHY_STATUS'')
       AND macro sample_decls ''HDMI_PHY_STATUS_READY'' = 0"
  by simp

lemma sample_wait_ready [simp]:
  "streamon_wait sample_decls (sample_env 1) sample_applied =
     (100, emit (Readl 0x10014) (emit (Subdev_call 1 (Video_s_stream 1)) sample_applied))"
  "streamon_wait sample_decls (sample_env_mhl_refusing 1) sample_applied =
     (100, emit (Readl 0x10014) (emit (Subdev_call 1 (Video_s_stream 1)) sample_applied))"
proof -
  let ?m = "emit (Subdev_call 1 (Video_s_stream 1)) sample_applied"
  have "hdmi_phy_wait sample_decls (sample_env 1) (Suc 99) ?m =
          (Suc 99, emit (Readl (regs (hdev ?m) + macro sample_decls ''HDMI_PHY_STATUS'')) ?m)"
    by (rule hdmi_phy_wait_ready) simp
  then show "streamon_wait sample_decls (sample_env 1) sample_applied =
     (100, emit (Readl 0x10014) (emit (Subdev_call 1 (Video_s_stream 1)) sample_applied))"
    by (simp add: streamon_wait_def)
  have "hdmi_phy_wait sample_decls (sample_env_mhl_refusing 1) (Suc 99) ?m =
          (Suc 99, emit (Readl (regs (hdev ?m) + macro sample_decls ''HDMI_PHY_STATUS'')) ?m)"
    by (rule hdmi_phy_wait_ready) simp
  then show "streamon_wait sample_decls (sample_env_mhl_refusing 1) sample_applied =
     (100, emit (Readl 0x10014) (emit (Subdev_call 1 (Video_s_stream 1)) sample_applied))"
    by (simp add: streamon_wait_def)
qed

lemma sample_mhl_start [simp]:
  "streamon_mhl_start sample_decls (sample_env 1) sample_applied =
     (0, emit (Subdev_call 2 (Video_s_stream 1))
           (emit (Readl 0x10014) (emit (Subdev_call 1 (Video_s_stream 1)) sample_applied)))"
  "streamon_mhl_start sample_decls (sample_env_mhl_refusing 1) sample_applied =
     (- 22, emit (Subdev_call 2 (Video_s_stream 1))
           (emit (Readl 0x10014) (emit (Subdev_call 1 (Video_s_stream 1)) sample_applied)))"
  by (simp_all add: streamon_mhl_start_def v4l2_subdev_call_def)

lemma hdmi_streamon_sample_started:
  "hdmi_streamon sample_decls (sample_env 1) sample_applied =
     Inr (0, streamon_enable sample_decls (sample_env 1)
               (snd (streamon_mhl_start sample_decls (sample_env 1) sample_applied)))"
  by (simp add: hdmi_streamon_stages hdmi_conf_apply_sample_applied)

lemma hdmi_streamon_sample_mhl_refused:
  "hdmi_streamon sample_decls (sample_env_mhl_refusing 1) sample_applied =
     Inr (- 5, hdmi_dumpregs ''mhl - s_stream''
                 (streamon_phy_stop sample_decls (sample_env_mhl_refusing 1)
                    (snd (streamon_mhl_start sample_decls (sample_env_mhl_refusing 1)
                            sample_applied))))"
  by (simp add: hdmi_streamon_stages hdmi_conf_apply_sample_applied)

lemma sample_env_calls [simp]:
  "fst (v4l2_subdev_call D (sample_env v) (Some s) f m) = 0"
  "regulator_ret (sample_env v) h = 0"
  "pm_core (sample_env v) h = Pm_callback"
  by (simp_all add: v4l2_subdev_call_def sample_env_def)

lemma sample_env_wait_ready:
  assumes "regs (hdev m) = 0"
  shows "fst (hdmi_phy_wait sample_decls (sample_env 1) 100 m) = 100"
proof -
  have "hdmi_phy_wait sample_decls (sample_env 1) (Suc 99) m =
          (Suc 99, emit (Readl (regs (hdev m) + macro sample_decls ''HDMI_PHY_STATUS'')) m)"
    by (rule hdmi_phy_wait_ready) simp
  then show ?thesis by simp
qed

lemma hdev_sample_suspended [simp]: "hdev sample_suspended = sample_dev"
  by (simp add: sample_suspended_def sample_dev_def)

lemma hdev_sample_resumed [simp]: "hdev sample_resumed = sample_dev"
  by (simp add: sample_resumed_def)

lemma hdmi_runtime_resume_sample: "fst (hdmi_runtime_resume sample_decls (sample_env 0) sample_suspended) = 0"
  by (simp add: hdmi_runtime_resume_def hdmi_resource_poweron_def regulator_bulk_enable_def
      Let_def case_prod_beta)

lemma sample_phy_accepts_any:
  "phy_sd (hdev m) = Some s \<Longrightarrow> fst (conf_apply_phy_timings D (sample_env v) m) = 0"
  by (simp add: conf_apply_phy_timings_def)

lemma hdmi_streamon_sample_resumed:
  "hdmi_streamon sample_decls (sample_env 1) sample_resumed =
     Inr (0, streamon_enable sample_decls (sample_env 1)
               (snd (streamon_mhl_start sample_decls (sample_env 1)
                  ((conf_apply_programmed sample_decls (sample_env 1) hdmi_timings_480p sample_resumed)
                     \<lparr>hdev := sample_dev\<lparr>cur_conf_dirty := 0\<rparr>\<rparr>))))"
  by (simp add: hdmi_streamon_stages hdmi_conf_apply_stages sample_phy_accepts_any
      streamon_phy_start_def streamon_wait_def streamon_mhl_start_def sample_env_wait_ready)

subsection \<open>Register bytes\<close>

lemma reg16_bytes: "reg16 (ucast (drop_bit 8 v)) (ucast v) = take_bit 16 (v :: u32)"
  unfolding reg16_def
  by (rule bit_eqI) (auto simp: bit_simps)

lemma reg24_bytes:
  "reg24 (ucast (drop_bit 16 v)) (ucast (drop_bit 8 v)) (ucast v) = take_bit 24 (v :: u32)"
  unfolding reg24_def
proof (rule bit_eqI)
  fix n :: nat
  consider "n < 8" | "8 \<le> n" "n < 16" | "16 \<le> n" "n < 24" | "24 \<le> n"
    by linarith
  then show "bit (push_bit 16 (ucast (ucast (drop_bit 16 v) :: u8)) OR
                  push_bit 8 (ucast (ucast (drop_bit 8 v) :: u8)) OR
                  (ucast (ucast v :: u8) :: u32)) n = bit (take_bit 24 v) n"
    by cases (auto simp: bit_simps)
qed

lemma take_bit_16_small: "(v :: u32) < 0x10000 \<Longrightarrow> take_bit 16 v = v"
  using less_mask_eq [of v 16] by (simp add: take_bit_eq_mask)

lemma low12_take_bit: "low12 v = take_bit 12 v"
proof -
  have "(0xFFF :: u32) = mask 12" by (simp add: mask_eq_exp_minus_1)
  then show ?thesis by (simp add: low12_def take_bit_eq_mask)
qed

lemma high12_take_bit: "high12 v = take_bit 12 (drop_bit 12 v)"
proof -
  have "(0xFFF :: u32) = mask 12" by (simp add: mask_eq_exp_minus_1)
  then show ?thesis by (simp add: high12_def take_bit_eq_mask)
qed

lemma vsyn_trans_halves:
  assumes "(v :: u32) < 0x1000"
  shows "low12 (take_bit 24 (push_bit 12 v OR v)) = v"
    and "high12 (take_bit 24 (push_bit 12 v OR v)) = v"
proof -
  have v: "take_bit 12 v = v"
    using assms less_mask_eq [of v 12] by (simp add: take_bit_eq_mask)
  have b: "\<And>n. bit v n \<Longrightarrow> n < 12"
    by (metis v bit_take_bit_iff)
  show "low12 (take_bit 24 (push_bit 12 v OR v)) = v"
    unfolding low12_take_bit
    by (rule bit_eqI) (auto simp: bit_simps dest: b)
  show "high12 (take_bit 24 (push_bit 12 v OR v)) = v"
    unfolding high12_take_bit
    by (rule bit_eqI) (auto simp: bit_simps dest: b)
qed

lemma new_io_hdmi_timing_apply_tg_sizes:
  "Writeb (regs (hdev m) + macro D ''HDMI_TG_HACT_SZ_L'' + 4)
      (ucast (drop_bit 8 (endp (hact t) - beg (hact t))))
     \<in> set (new_io m (hdmi_timing_apply D E t m))"
  "Writeb (regs (hdev m) + macro D ''HDMI_TG_HACT_SZ_L'') (ucast (endp (hact t) - beg (hact t)))
     \<in> set (new_io m (hdmi_timing_apply D E t m))"
  "Writeb (regs (hdev m) + macro D ''HDMI_TG_VACT_SZ_L'' + 4)
      (ucast (drop_bit 8 (endp (vact_0 t) - beg (vact_0 t))))
     \<in> set (new_io m (hdmi_timing_apply D E t m))"
  "Writeb (regs (hdev m) + macro D ''HDMI_TG_VACT_SZ_L'')
      (ucast (endp (vact_0 t) - beg (vact_0 t)))
     \<in> set (new_io m (hdmi_timing_apply D E t m))"
  by (simp_all add: new_io_def hdmi_timing_apply_def Let_def io_hdmi_writebn_2 io_hdmi_writebn_3 io_hdmi_writeb
      io_hdmi_write_mask)

lemma new_io_hdmi_timing_apply_vsyn_trans:
  assumes "interlaced t \<noteq> 0"
  shows
  "Writeb (regs (hdev m) + macro D ''HDMI_V_SYNC_GEN_3_0'' + 8)
      (ucast (drop_bit 16 (push_bit 12 (beg (hsyn t) + vsyn_off t) OR
                           (beg (hsyn t) + vsyn_off t))))
     \<in> set (new_io m (hdmi_timing_apply D E t m))"
  "Writeb (regs (hdev m) + macro D ''HDMI_V_SYNC_GEN_3_0'' + 4)
      (ucast (drop_bit 8 (push_bit 12 (beg (hsyn t) + vsyn_off t) OR
                          (beg (hsyn t) + vsyn_off t))))
     \<in> set (new_io m (hdmi_timing_apply D E t m))"
  "Writeb (regs (hdev m) + macro D ''HDMI_V_SYNC_GEN_3_0'')
      (ucast (push_bit 12 (beg (hsyn t) + vsyn_off t) OR (beg (hsyn t) + vsyn_off t)))
     \<in> set (new_io m (hdmi_timing_apply D E t m))"
  using assms
  by (simp_all add: new_io_def hdmi_timing_apply_def Let_def io_hdmi_writebn_2 io_hdmi_writebn_3 io_hdmi_writeb
      io_hdmi_write_mask)

subsection \<open>The device structure under the entry points\<close>

lemma hdev_hdmi_streamoff [simp]: "hdev (snd (hdmi_streamoff D E m)) = hdev m"
  by (simp add: hdmi_streamoff_def Let_def case_prod_beta)

lemma hdev_hdmi_irq_handler [simp]: "hdev (snd (hdmi_irq_handler D E m)) = hdev m"
  by (simp add: hdmi_irq_handler_def hdmi_read_def readl_def Let_def)

lemma hdev_hdmi_dv_timings_cap [simp]:
  "hdev (snd (hdmi_dv_timings_cap D E phy_fill cap m)) = hdev m"
  by (simp add: hdmi_dv_timings_cap_def Let_def case_prod_beta)

lemma hdev_pm_runtime_get_sync [simp]: "hdev (snd (pm_runtime_get_sync D E m)) = hdev m"
  by (simp add: pm_runtime_get_sync_def split: pm_result.splits)

lemma hdev_pm_runtime_put_sync:
  "hdev (snd (pm_runtime_put_sync D E m)) =
     (case pm_core E (io m) of
        Pm_return r \<Rightarrow> hdev m
      | Pm_callback \<Rightarrow> (hdev m)\<lparr>cur_conf_dirty := 1\<rparr>)"
  by (simp add: pm_runtime_put_sync_def split: pm_result.splits)

lemma hdev_hdmi_s_power:
  "hdev (snd (hdmi_s_power D E on m)) =
     (if on = 0 \<and> pm_core E (io m) = Pm_callback then (hdev m)\<lparr>cur_conf_dirty := 1\<rparr>
      else hdev m)"
  by (simp add: hdmi_s_power_def Let_def case_prod_beta hdev_pm_runtime_put_sync
      split: pm_result.splits)

lemma hdev_hdmi_s_dv_timings:
  "cur_conf (hdev (snd (hdmi_s_dv_timings D t m))) \<noteq> cur_conf (hdev m) \<or>
   cur_conf_dirty (hdev (snd (hdmi_s_dv_timings D t m))) \<noteq> cur_conf_dirty (hdev m) \<Longrightarrow>
   cur_conf_dirty (hdev (snd (hdmi_s_dv_timings D t m))) = 1"
  by (auto simp: hdmi_s_dv_timings_def Let_def split: if_splits)

subsection \<open>Timings and entry points on the sample platform\<close>

lemma hdmi_call_sample_suspend:
  "hdmi_call sample_decls (sample_env 0) (Runtime_suspend :: (string, unit) hdmi_entry)
     sample_applied = Some sample_suspended"
  by (simp add: sample_suspended_def)

lemma example_timings_simps:
  "hact example_timings = \<lparr>beg = 100, endp = 900\<rparr>"
  "vact_0 example_timings = \<lparr>beg = 10, endp = 510\<rparr>"
  "interlaced example_timings = 1"
  "beg (hsyn example_timings) = 16"
  "vsyn_off example_timings = 1100"
  by (simp_all add: example_timings_def synthetic_timings_def)

lemma sample_macro_sizes:
  "macro sample_decls ''HDMI_TG_HACT_SZ_L'' = 0x50028"
  "macro sample_decls ''HDMI_TG_VACT_SZ_L'' = 0x50050"
  "macro sample_decls ''HDMI_V_SYNC_GEN_3_0'' = 0x10150"
  by (simp_all add: sample_decls_def sample_macro_def)

lemma oversize_timings_simps:
  "hact oversize_timings = \<lparr>beg = 0, endp = 0x10000\<rparr>"
  "vact_0 oversize_timings = \<lparr>beg = 10, endp = 510\<rparr>"
  "interlaced oversize_timings = 1"
  "hsyn oversize_timings = \<lparr>beg = 0x1000, endp = 0x1000 + 62\<rparr>"
  "vsyn_off oversize_timings = 0"
  "hsyn_pol oversize_timings = 1"
  "vsyn_pol oversize_timings = 1"
  "vact_1 oversize_timings = \<lparr>beg = 0, endp = 0\<rparr>"
  "vsyn_0 oversize_timings = \<lparr>beg = 6 + 3, endp = 12 + 3\<rparr>"
  "vsyn_1 oversize_timings = \<lparr>beg = 0, endp = 0\<rparr>"
  by (simp_all add: oversize_timings_def synthetic_timings_def hdmi_timings_480p_def)

lemma sample_macro_timing_regs:
  "macro sample_decls ''HDMI_H_BLANK_0'' = 0x100A0"
  "macro sample_decls ''HDMI_H_SYNC_GEN_0'' = 0x10120"
  "macro sample_decls ''HDMI_VSYNC_POL'' = 0x100E4"
  "macro sample_decls ''HDMI_V_BLANK_0'' = 0x100B0"
  "macro sample_decls ''HDMI_V_SYNC_GEN_1_0'' = 0x10130"
  "macro sample_decls ''HDMI_INT_PRO_MODE'' = 0x100E8"
  "macro sample_decls ''HDMI_H_V_LINE_0'' = 0x100C0"
  "macro sample_decls ''HDMI_V_BLANK_F_0'' = 0x10110"
  "macro sample_decls ''HDMI_V_SYNC_GEN_2_0'' = 0x10140"
  "macro sample_decls ''HDMI_TG_H_FSZ_L'' = 0x50018"
  "macro sample_decls ''HDMI_TG_HACT_ST_L'' = 0x50020"
  "macro sample_decls ''HDMI_TG_VSYNC_L'' = 0x50038"
  "macro sample_decls ''HDMI_TG_VACT_ST_L'' = 0x50048"
  "macro sample_decls ''HDMI_TG_VSYNC_TOP_HDMI_L'' = 0x50078"
  "macro sample_decls ''HDMI_TG_FIELD_TOP_HDMI_L'' = 0x50088"
  "macro sample_decls ''HDMI_TG_FIELD_EN'' = 0x2"
  "macro sample_decls ''HDMI_TG_V_FSZ_L'' = 0x50030"
  "macro sample_decls ''HDMI_TG_VSYNC2_L'' = 0x50040"
  "macro sample_decls ''HDMI_TG_FIELD_CHG_L'' = 0x50058"
  "macro sample_decls ''HDMI_TG_VACT_ST2_L'' = 0x50060"
  "macro sample_decls ''HDMI_TG_VSYNC_BOT_HDMI_L'' = 0x50080"
  "macro sample_decls ''HDMI_TG_FIELD_BOT_HDMI_L'' = 0x50090"
  by (simp_all add: sample_decls_def sample_macro_def)

lemma io_sample_machine [simp]: "io sample_machine = []"
  by (simp add: sample_machine_def)

lemma written_oversize:
  "written 0x5002C (new_io sample_machine
     (hdmi_timing_apply sample_decls (sample_env 0) oversize_timings sample_machine)) = [0]"
  "written 0x50028 (new_io sample_machine
     (hdmi_timing_apply sample_decls (sample_env 0) oversize_timings sample_machine)) = [0]"
  "written 0x10158 (new_io sample_machine
     (hdmi_timing_apply sample_decls (sample_env 0) oversize_timings sample_machine)) = [0]"
  "written 0x10154 (new_io sample_machine
     (hdmi_timing_apply sample_decls (sample_env 0) oversize_timings sample_machine)) = [0x10]"
  "written 0x10150 (new_io sample_machine
     (hdmi_timing_apply sample_decls (sample_env 0) oversize_timings sample_machine)) = [0]"
  by (simp_all add: new_io_def hdmi_timing_apply_def Let_def io_hdmi_writebn_2 io_hdmi_writebn_3 io_hdmi_writeb
      io_hdmi_write_mask oversize_timings_simps sample_macro_timing_regs sample_macro_sizes)

lemma sample_macro_apply_regs:
  "macro sample_decls ''HDMI_PHY_RSTOUT'' = 0x14"
  "macro sample_decls ''HDMI_PHY_SW_RSTOUT'' = 1"
  "macro sample_decls ''HDMI_CORE_RSTOUT'' = 0x20"
  "macro sample_decls ''HDMI_CORE_SW_RSTOUT'' = 1"
  "macro sample_decls ''HDMI_INTC_CON'' = 0"
  "macro sample_decls ''HDMI_INTC_EN_GLOBAL'' = 0x40"
  "macro sample_decls ''HDMI_INTC_EN_HPD_PLUG'' = 0x4"
  "macro sample_decls ''HDMI_INTC_EN_HPD_UNPLUG'' = 0x8"
  "macro sample_decls ''HDMI_MODE_SEL'' = 0x10040"
  "macro sample_decls ''HDMI_MODE_DVI_EN'' = 1"
  "macro sample_decls ''HDMI_MODE_MASK'' = 3"
  "macro sample_decls ''HDMI_CON_2'' = 0x10008"
  "macro sample_decls ''HDMI_DVI_PERAMBLE_EN'' = 0x20"
  "macro sample_decls ''HDMI_DVI_BAND_EN'' = 0x2"
  "macro sample_decls ''HDMI_BLUE_SCR_EN'' = 0x20"
  "macro sample_decls ''HDMI_BLUE_SCREEN_0'' = 0x10050"
  "macro sample_decls ''HDMI_BLUE_SCREEN_1'' = 0x10054"
  "macro sample_decls ''HDMI_BLUE_SCREEN_2'' = 0x10058"
  by (simp_all add: sample_decls_def sample_macro_def)

lemma sample_dev_timings:
  "cur_timings sample_dev = \<lparr>bt_flags = 1, bt_rest = ''720X480P59_94''\<rparr>"
  by (simp add: sample_dev_def sample_decls_def)

lemma sample_env_refusing_reads: "readl_val sample_env_refusing h a = 0"
  by (simp add: sample_env_refusing_def sample_env_def)

lemma hdmi_streamon_sample_refused:
  "hdmi_streamon sample_decls sample_env_refusing sample_resumed =
     Inr (- 22, snd (conf_apply_phy_timings sample_decls sample_env_refusing sample_resumed))"
  by (simp add: hdmi_streamon_stages hdmi_conf_apply_stages fst_conf_apply_phy_timings
      sample_env_refusing_def case_prod_beta)

section \<open>The mode-apply protocol\<close>

text \<open>
  Claim C4. After a call of the mode-apply operation on a dirty state (a call that
  returns: with no configuration set the call faults), the dirty flag is clear if and
  only if the call succeeded. When the PHY refuses the timings handed to it
  (the current descriptor), the call returns the PHY's error and leaves the device
  structure, the dirty flag with it, as it was. When the call succeeds, the configuration
  was there, the log is the log of the complete programming, and the device structure
  differs from the old one in the dirty flag only: clearing it is the last step and adds
  nothing to the log.
\<close>

theorem hdmi_conf_apply_dirty_iff:
  assumes "cur_conf_dirty (hdev m) \<noteq> 0" and "hdmi_conf_apply D E m = Inr (ret, m1)"
  shows "(cur_conf_dirty (hdev m1) = 0 \<longleftrightarrow> ret = 0) \<and>
         (ret \<noteq> 0 \<longrightarrow>
            (ret, m1) = conf_apply_phy_timings D E m \<and> hdev m1 = hdev m) \<and>
         (ret = 0 \<longrightarrow>
            fst (conf_apply_phy_timings D E m) = 0 \<and>
            (\<exists>t. cur_conf (hdev m) = Some t \<and>
                 io m1 = io (conf_apply_programmed D E t m) \<and>
                 hdev m1 = (hdev m)\<lparr>cur_conf_dirty := 0\<rparr>))"
  using assms
  by (auto simp: hdmi_conf_apply_stages split: if_splits option.splits
      dest: hdev_conf_apply_phy_timingsD)

theorem hdmi_conf_apply_dirty_iff_witness:
  "cur_conf_dirty (hdev sample_machine) \<noteq> 0 \<and>
   hdmi_conf_apply sample_decls (sample_env 0) sample_machine = Inr (0, sample_applied) \<and>
   cur_conf_dirty (hdev sample_applied) = 0 \<and>
   hdmi_conf_apply sample_decls sample_env_refusing sample_machine =
     Inr (- 22, snd (conf_apply_phy_timings sample_decls sample_env_refusing sample_machine)) \<and>
   cur_conf_dirty
     (hdev (snd (conf_apply_phy_timings sample_decls sample_env_refusing sample_machine))) \<noteq> 0"
proof -
  have d: "cur_conf_dirty (hdev sample_machine) \<noteq> 0"
    by simp
  show ?thesis
    using d hdmi_conf_apply_sample hdmi_conf_apply_sample_refused
      hdmi_conf_apply_dirty_iff [OF d hdmi_conf_apply_sample]
      hdmi_conf_apply_dirty_iff [OF d hdmi_conf_apply_sample_refused]
    by simp
qed



section \<open>Stopping the stream\<close>

text \<open>
  Claim C6. Every call of stop-stream returns success, whatever the repeater and the PHY
  answer. It first clears the core-enable bit and then the timing-generator-enable bit (two
  masked register writes), then disables the shared clock, sets its parent to the pixel
  clock and enables it again, then calls the stop operation of the repeater (when there is
  one) and of the PHY, and ends with the register dump. The device structure is unchanged.
\<close>

theorem hdmi_streamoff_always:
  "fst (hdmi_streamoff D E m) = 0 \<and>
   hdev (snd (hdmi_streamoff D E m)) = hdev m \<and>
   io (snd (hdmi_streamoff D E m)) =
     (let s = sclk_hdmi (res (hdev m));
          c0 = regs (hdev m) + macro D ''HDMI_CON_0'';
          tg = regs (hdev m) + macro D ''HDMI_TG_CMD'';
          l1 = io m @ [Readl c0,
                       Writel c0 (readl_val E (io m) c0 AND NOT (macro D ''HDMI_EN''))];
          l2 = l1 @ [Readl tg, Writel tg (readl_val E l1 tg AND NOT (macro D ''HDMI_TG_EN''))]
      in l2 @
         [Clk_disable s, Clk_set_parent s (sclk_pixel (res (hdev m))), Clk_enable s] @
         (case mhl_sd (hdev m) of None \<Rightarrow> [] | Some r \<Rightarrow> [Subdev_call r (Video_s_stream 0)]) @
         (case phy_sd (hdev m) of None \<Rightarrow> [] | Some p \<Rightarrow> [Subdev_call p (Video_s_stream 0)]) @
         [Dumpregs ''streamoff''])"
  by (simp add: hdmi_streamoff_def Let_def case_prod_beta io_v4l2_subdev_call
      io_hdmi_write_mask)

theorem hdmi_streamoff_always_witness:
  "fst (hdmi_streamoff sample_decls sample_env_refusing sample_machine) = 0 \<and>
   io (snd (hdmi_streamoff sample_decls sample_env_refusing sample_machine)) =
     [Readl 0x10000, Writel 0x10000 0, Readl 0x50000, Writel 0x50000 0,
      Clk_disable 11, Clk_set_parent 11 12, Clk_enable 11,
      Subdev_call 2 (Video_s_stream 0), Subdev_call 1 (Video_s_stream 0),
      Dumpregs ''streamoff'']"
  using hdmi_streamoff_always
      [where D = sample_decls and E = sample_env_refusing and m = sample_machine]
  by (simp add: Let_def sample_machine_def sample_dev_def sample_decls_def
      sample_macro_def sample_env_refusing_def sample_env_def)

section \<open>Selecting and reading back the timings\<close>

text \<open>
  Claim C7. When the descriptor matches no element of the catalog, set-timings returns
  \<^verbatim>\<open>-EINVAL\<close> and the machine is the one before the call: the current configuration, the
  dirty flag, and what get-timings returns afterwards are unchanged.
\<close>

theorem hdmi_s_dv_timings_unsupported:
  assumes "\<forall>e \<in> set (hdmi_timings_tab D). \<not> v4l2_match_dv_timings D (dv_timings e) timings 0"
  shows "hdmi_s_dv_timings D timings m = (- EINVAL D, m) \<and>
         cur_conf (hdev (snd (hdmi_s_dv_timings D timings m))) = cur_conf (hdev m) \<and>
         cur_conf_dirty (hdev (snd (hdmi_s_dv_timings D timings m))) = cur_conf_dirty (hdev m) \<and>
         hdmi_g_dv_timings (snd (hdmi_s_dv_timings D timings m)) = hdmi_g_dv_timings m"
proof -
  have "hdmi_timings_find D (hdmi_timings_tab D) timings 0 = length (hdmi_timings_tab D)"
    using assms hdmi_timings_find_none [of D "hdmi_timings_tab D" timings 0] by simp
  then have "hdmi_s_dv_timings D timings m = (- EINVAL D, m)"
    by (simp add: hdmi_s_dv_timings_def)
  then show ?thesis by simp
qed

theorem hdmi_s_dv_timings_unsupported_witness:
  "list_all
     (\<lambda>e. \<not> v4l2_match_dv_timings sample_decls (dv_timings e)
                \<lparr>bt_flags = 1, bt_rest = ''640X480P60''\<rparr> 0)
     (hdmi_timings_tab sample_decls) \<and>
   hdmi_s_dv_timings sample_decls \<lparr>bt_flags = 1, bt_rest = ''640X480P60''\<rparr> sample_applied =
     (- 22, sample_applied)"
  using sample_no_match hdmi_s_dv_timings_unsupported [OF sample_no_match, of sample_applied]
  by (simp add: sample_decls_def list_all_iff)

text \<open>
  Claim C8. When the descriptor matches an element of the catalog, the search stops at the
  first such element, set-timings returns success, and get-timings then returns the
  descriptor that was passed in: verbatim when that element allows reduced frame rates,
  and with the can-reduce-fps bits of its flags cleared (nothing else changed) when the
  element does not allow them.
\<close>

theorem hdmi_s_dv_timings_roundtrip:
  assumes "\<exists>e \<in> set (hdmi_timings_tab D). v4l2_match_dv_timings D (dv_timings e) timings 0"
  shows "let i = hdmi_timings_find D (hdmi_timings_tab D) timings 0;
             e = hdmi_timings_tab D ! i;
             m1 = snd (hdmi_s_dv_timings D timings m)
         in i < length (hdmi_timings_tab D) \<and>
            v4l2_match_dv_timings D (dv_timings e) timings 0 \<and>
            (\<forall>j < i. \<not> v4l2_match_dv_timings D (dv_timings (hdmi_timings_tab D ! j)) timings 0) \<and>
            fst (hdmi_s_dv_timings D timings m) = 0 \<and>
            hdmi_g_dv_timings m1 =
              (0, if reduced_fps e then timings
                  else timings\<lparr>bt_flags := bt_flags timings
                                  AND NOT (macro D ''V4L2_DV_FL_CAN_REDUCE_FPS'')\<rparr>)"
proof -
  let ?tab = "hdmi_timings_tab D"
  let ?i = "hdmi_timings_find D ?tab timings 0"
  have "?i \<noteq> 0 + length ?tab"
    using assms hdmi_timings_find_none [of D ?tab timings 0] by auto
  moreover have "?i \<le> 0 + length ?tab"
    by (rule hdmi_timings_find_le)
  ultimately have lt: "?i < 0 + length ?tab"
    by linarith
  from hdmi_timings_find_first [OF lt] lt show ?thesis
    by (simp add: Let_def hdmi_s_dv_timings_def hdmi_g_dv_timings_def)
qed

theorem hdmi_s_dv_timings_roundtrip_witness:
  "(\<exists>e \<in> set (hdmi_timings_tab sample_decls).
      v4l2_match_dv_timings sample_decls (dv_timings e)
        \<lparr>bt_flags = 1, bt_rest = ''1280X720P60''\<rparr> 0) \<and>
   hdmi_g_dv_timings
     (snd (hdmi_s_dv_timings sample_decls \<lparr>bt_flags = 1, bt_rest = ''1280X720P60''\<rparr>
             sample_machine)) =
     (0, \<lparr>bt_flags = 1, bt_rest = ''1280X720P60''\<rparr>) \<and>
   (\<exists>e \<in> set (hdmi_timings_tab sample_decls).
      v4l2_match_dv_timings sample_decls (dv_timings e)
        \<lparr>bt_flags = 1, bt_rest = ''720X576P50''\<rparr> 0) \<and>
   hdmi_g_dv_timings
     (snd (hdmi_s_dv_timings sample_decls \<lparr>bt_flags = 1, bt_rest = ''720X576P50''\<rparr>
             sample_machine)) =
     (0, \<lparr>bt_flags = 0, bt_rest = ''720X576P50''\<rparr>)"
proof -
  have a: "\<exists>e \<in> set (hdmi_timings_tab sample_decls).
      v4l2_match_dv_timings sample_decls (dv_timings e)
        \<lparr>bt_flags = 1, bt_rest = ''1280X720P60''\<rparr> 0"
    by (simp add: hdmi_timings_tab_def sample_decls_def)
  have b: "\<exists>e \<in> set (hdmi_timings_tab sample_decls).
      v4l2_match_dv_timings sample_decls (dv_timings e)
        \<lparr>bt_flags = 1, bt_rest = ''720X576P50''\<rparr> 0"
    by (simp add: hdmi_timings_tab_def sample_decls_def)
  have fa: "hdmi_timings_find sample_decls (hdmi_timings_tab sample_decls)
              \<lparr>bt_flags = 1, bt_rest = ''1280X720P60''\<rparr> 0 = 3"
    by (simp add: hdmi_timings_tab_def sample_decls_def)
  have fb: "hdmi_timings_find sample_decls (hdmi_timings_tab sample_decls)
              \<lparr>bt_flags = 1, bt_rest = ''720X576P50''\<rparr> 0 = 1"
    by (simp add: hdmi_timings_tab_def sample_decls_def)
  have ra: "reduced_fps (hdmi_timings_tab sample_decls ! 3)"
    by (simp add: hdmi_timings_tab_def)
  have rb: "\<not> reduced_fps (hdmi_timings_tab sample_decls ! Suc 0)"
    by (simp add: hdmi_timings_tab_def)
  have k: "macro sample_decls ''V4L2_DV_FL_CAN_REDUCE_FPS'' = 1"
    by (simp add: sample_decls_def sample_macro_def)
  show ?thesis
    using a b hdmi_s_dv_timings_roundtrip [OF a, of sample_machine]
      hdmi_s_dv_timings_roundtrip [OF b, of sample_machine]
    by (simp add: Let_def fa fb ra rb k)
qed

section \<open>Starting the stream\<close>

text \<open>
  Claim C2. Start-stream returns for every state that has a configuration. For every
  state, the wait for the PLL of the PHY ends after at most 100 samples of the status
  register: its log is a run of (sample, delay of 1 ms) pairs, one
  for every try used up, followed by the sample that saw the ready bit if there was one;
  when no history makes the status register show the ready bit, the wait ends with no try
  left. When mode-apply and the start of the PHY have succeeded and the wait ends with no
  try left (100 samples, 100 delays), start-stream calls the stop operation of the PHY,
  ignoring its result, dumps the registers, and returns \<^verbatim>\<open>-EIO\<close>.
\<close>

theorem hdmi_streamon_phy_timeout:
  "(cur_conf (hdev m) \<noteq> None \<longrightarrow> (\<exists>ret m2. hdmi_streamon D E m = Inr (ret, m2))) \<and>
   fst (streamon_wait D E m1) \<le> 100 \<and>
   io (snd (streamon_wait D E m1)) =
     io (snd (streamon_phy_start D E m1)) @
     concat (replicate (100 - fst (streamon_wait D E m1))
               [Readl (regs (hdev m1) + macro D ''HDMI_PHY_STATUS''), Mdelay 1]) @
     (if fst (streamon_wait D E m1) = 0 then []
      else [Readl (regs (hdev m1) + macro D ''HDMI_PHY_STATUS'')]) \<and>
   ((\<forall>h. readl_val E h (regs (hdev m1) + macro D ''HDMI_PHY_STATUS'')
            AND macro D ''HDMI_PHY_STATUS_READY'' = 0) \<longrightarrow>
      fst (streamon_wait D E m1) = 0) \<and>
   (hdmi_conf_apply D E m = Inr (0, m1) \<and> fst (streamon_phy_start D E m1) = 0 \<and>
    fst (streamon_wait D E m1) = 0 \<longrightarrow>
      hdmi_streamon D E m =
        Inr (- EIO D, hdmi_dumpregs ''hdmiphy - s_stream''
                        (streamon_phy_stop D E (snd (streamon_wait D E m1)))) \<and>
      io (hdmi_dumpregs ''hdmiphy - s_stream''
            (streamon_phy_stop D E (snd (streamon_wait D E m1)))) =
        io (snd (streamon_phy_start D E m1)) @
        concat (replicate 100
                  [Readl (regs (hdev m1) + macro D ''HDMI_PHY_STATUS''), Mdelay 1]) @
        (case phy_sd (hdev m1) of None \<Rightarrow> []
         | Some s \<Rightarrow> [Subdev_call s (Video_s_stream 0)]) @
        [Dumpregs ''hdmiphy - s_stream''])"
proof (intro conjI impI)
  show "\<exists>ret m2. hdmi_streamon D E m = Inr (ret, m2)" if "cur_conf (hdev m) \<noteq> None"
    using that by (rule hdmi_streamon_returns)
  show "fst (streamon_wait D E m1) \<le> 100"
    by (rule fst_streamon_wait_le)
  show "io (snd (streamon_wait D E m1)) =
     io (snd (streamon_phy_start D E m1)) @
     concat (replicate (100 - fst (streamon_wait D E m1))
               [Readl (regs (hdev m1) + macro D ''HDMI_PHY_STATUS''), Mdelay 1]) @
     (if fst (streamon_wait D E m1) = 0 then []
      else [Readl (regs (hdev m1) + macro D ''HDMI_PHY_STATUS'')])"
    by (rule io_streamon_wait)
  show "fst (streamon_wait D E m1) = 0"
    if "\<forall>h. readl_val E h (regs (hdev m1) + macro D ''HDMI_PHY_STATUS'')
            AND macro D ''HDMI_PHY_STATUS_READY'' = 0"
    using that by (rule streamon_wait_never)
  assume h: "hdmi_conf_apply D E m = Inr (0, m1) \<and> fst (streamon_phy_start D E m1) = 0 \<and>
           fst (streamon_wait D E m1) = 0"
  then show "hdmi_streamon D E m =
        Inr (- EIO D, hdmi_dumpregs ''hdmiphy - s_stream''
                        (streamon_phy_stop D E (snd (streamon_wait D E m1))))"
    by (simp add: hdmi_streamon_stages)
  from h have w: "io (snd (streamon_wait D E m1)) =
      io (snd (streamon_phy_start D E m1)) @
      concat (replicate 100 [Readl (regs (hdev m1) + macro D ''HDMI_PHY_STATUS''), Mdelay 1])"
    using io_streamon_wait [of D E m1] by simp
  show "io (hdmi_dumpregs ''hdmiphy - s_stream''
            (streamon_phy_stop D E (snd (streamon_wait D E m1)))) =
        io (snd (streamon_phy_start D E m1)) @
        concat (replicate 100
                  [Readl (regs (hdev m1) + macro D ''HDMI_PHY_STATUS''), Mdelay 1]) @
        (case phy_sd (hdev m1) of None \<Rightarrow> []
         | Some s \<Rightarrow> [Subdev_call s (Video_s_stream 0)]) @
        [Dumpregs ''hdmiphy - s_stream'']"
    by (simp add: io_streamon_phy_stop w)
qed

theorem hdmi_streamon_phy_timeout_witness:
  "(\<forall>h. readl_val (sample_env 0) h
          (regs (hdev sample_applied) + macro sample_decls ''HDMI_PHY_STATUS'')
        AND macro sample_decls ''HDMI_PHY_STATUS_READY'' = 0) \<and>
   hdmi_conf_apply sample_decls (sample_env 0) sample_applied = Inr (0, sample_applied) \<and>
   fst (streamon_phy_start sample_decls (sample_env 0) sample_applied) = 0 \<and>
   fst (streamon_wait sample_decls (sample_env 0) sample_applied) = 0 \<and>
   hdmi_streamon sample_decls (sample_env 0) sample_applied =
     Inr (- 5, hdmi_dumpregs ''hdmiphy - s_stream''
                 (streamon_phy_stop sample_decls (sample_env 0)
                    (snd (streamon_wait sample_decls (sample_env 0) sample_applied)))) \<and>
   new_io sample_applied
     (hdmi_dumpregs ''hdmiphy - s_stream''
        (streamon_phy_stop sample_decls (sample_env 0)
           (snd (streamon_wait sample_decls (sample_env 0) sample_applied)))) =
     Subdev_call 1 (Video_s_stream 1) # concat (replicate 100 [Readl 0x10014, Mdelay 1]) @
     [Subdev_call 1 (Video_s_stream 0), Dumpregs ''hdmiphy - s_stream'']"
  using hdmi_streamon_phy_timeout
      [where D = sample_decls and E = "sample_env 0" and m = sample_applied
         and ?m1.0 = sample_applied]
    sample_never_ready hdmi_conf_apply_sample_applied [of "sample_env 0"]
  by (simp add: new_io_def)

text \<open>
  Claim C3. In every execution of start-stream that returns, mode-apply performs no clock
  operation, and after mode-apply:
  \<^item> when the PHY was started, the wait saw the ready bit (its last sample read it as
    set), and the repeater is absent or its start call returned success, start-stream
    returns success; between mode-apply and the end of the repeater call there is no
    clock operation and no register write; then come, in this order, the disabling of
    the shared clock, the switch of its parent to the PHY clock, its enabling, the masked
    write that sets the core-enable bit, the masked write that sets the
    timing-generator-enable bit, and the register dump;
  \<^item> in every other case no clock operation and no register write follows mode-apply;
  \<^item> when the repeater is there and its start call fails, start-stream calls the stop
    operation of the PHY, dumps the registers and returns \<^verbatim>\<open>-EIO\<close>.
\<close>

theorem hdmi_streamon_order:
  assumes "hdmi_streamon D E m = Inr (ret, m2)"
  shows "\<exists>r1 m1.
     hdmi_conf_apply D E m = Inr (r1, m1) \<and>
     list_all (\<lambda>e. \<not> is_clk_op e) (new_io m m1) \<and>
     (if r1 = 0 \<and> fst (streamon_phy_start D E m1) = 0 \<and> fst (streamon_wait D E m1) \<noteq> 0 \<and>
         (mhl_sd (hdev m) = None \<or> fst (streamon_mhl_start D E m1) = 0)
      then
        ret = 0 \<and>
        (\<exists>h. io (snd (streamon_wait D E m1)) =
                h @ [Readl (regs (hdev m) + macro D ''HDMI_PHY_STATUS'')] \<and>
              readl_val E h (regs (hdev m) + macro D ''HDMI_PHY_STATUS'')
                AND macro D ''HDMI_PHY_STATUS_READY'' \<noteq> 0) \<and>
        list_all (\<lambda>e. \<not> is_clk_op e \<and> \<not> is_reg_write e)
          (new_io m1 (snd (streamon_mhl_start D E m1))) \<and>
        io m2 =
          (let s = sclk_hdmi (res (hdev m));
               c0 = regs (hdev m) + macro D ''HDMI_CON_0'';
               tg = regs (hdev m) + macro D ''HDMI_TG_CMD'';
               l1 = io (snd (streamon_mhl_start D E m1)) @
                    [Clk_disable s, Clk_set_parent s (sclk_hdmiphy (res (hdev m))),
                     Clk_enable s];
               l2 = l1 @ [Readl c0,
                          Writel c0 (macro D ''HDMI_EN'' OR
                                     (readl_val E l1 c0 AND NOT (macro D ''HDMI_EN'')))];
               l3 = l2 @ [Readl tg,
                          Writel tg (macro D ''HDMI_TG_EN'' OR
                                     (readl_val E l2 tg AND NOT (macro D ''HDMI_TG_EN'')))]
           in l3 @ [Dumpregs ''streamon''])
      else list_all (\<lambda>e. \<not> is_clk_op e \<and> \<not> is_reg_write e) (new_io m1 m2)) \<and>
     (r1 = 0 \<and> fst (streamon_phy_start D E m1) = 0 \<and> fst (streamon_wait D E m1) \<noteq> 0 \<and>
      mhl_sd (hdev m) \<noteq> None \<and> fst (streamon_mhl_start D E m1) \<noteq> 0 \<longrightarrow>
        ret = - EIO D \<and>
        io m2 =
          io (snd (streamon_mhl_start D E m1)) @
          (case phy_sd (hdev m) of None \<Rightarrow> [] | Some s \<Rightarrow> [Subdev_call s (Video_s_stream 0)]) @
          [Dumpregs ''mhl - s_stream''])"
proof -
  from assms obtain r1 m1 where ca: "hdmi_conf_apply D E m = Inr (r1, m1)"
    by (auto simp: hdmi_streamon_def split: sum.splits)
  note dv = hdmi_conf_apply_devD [OF ca]
  have nc: "list_all (\<lambda>e. \<not> is_clk_op e) (new_io m m1)"
    by (rule no_clk_hdmi_conf_apply [OF ca])
  let ?P = "\<lambda>e. \<not> is_clk_op e \<and> \<not> is_reg_write e"
  have a_start: "adds_only ?P m1 (snd (streamon_phy_start D E m1))"
    by (auto simp: adds_only_def io_streamon_phy_start split: option.splits)
  have a_wait: "adds_only ?P m1 (snd (streamon_wait D E m1))"
    by (rule adds_only_streamon_wait)
  have a_mhl: "adds_only ?P m1 (snd (streamon_mhl_start D E m1))"
    by (rule adds_only_streamon_mhl_start)
  have a_to: "adds_only ?P m1
      (hdmi_dumpregs ''hdmiphy - s_stream'' (streamon_phy_stop D E (snd (streamon_wait D E m1))))"
    using a_wait
    by (auto simp: adds_only_def io_streamon_phy_stop split: option.splits)
  have a_mf: "adds_only ?P m1
      (hdmi_dumpregs ''mhl - s_stream'' (streamon_phy_stop D E (snd (streamon_mhl_start D E m1))))"
    using a_mhl
    by (auto simp: adds_only_def io_streamon_phy_stop split: option.splits)
  have s: "hdmi_streamon D E m =
      (if r1 \<noteq> 0 then Inr (r1, m1)
       else if fst (streamon_phy_start D E m1) \<noteq> 0 then Inr (streamon_phy_start D E m1)
       else if fst (streamon_wait D E m1) = 0 then
         Inr (- EIO D, hdmi_dumpregs ''hdmiphy - s_stream''
                         (streamon_phy_stop D E (snd (streamon_wait D E m1))))
       else if mhl_sd (hdev m1) \<noteq> None \<and> fst (streamon_mhl_start D E m1) \<noteq> 0 then
         Inr (- EIO D, hdmi_dumpregs ''mhl - s_stream''
                         (streamon_phy_stop D E (snd (streamon_mhl_start D E m1))))
       else Inr (0, streamon_enable D E (snd (streamon_mhl_start D E m1))))"
    by (simp add: hdmi_streamon_stages ca)
  have locked: "fst (streamon_wait D E m1) \<noteq> 0 \<Longrightarrow>
      \<exists>h. io (snd (streamon_wait D E m1)) =
             h @ [Readl (regs (hdev m) + macro D ''HDMI_PHY_STATUS'')] \<and>
           readl_val E h (regs (hdev m) + macro D ''HDMI_PHY_STATUS'')
             AND macro D ''HDMI_PHY_STATUS_READY'' \<noteq> 0"
    using streamon_wait_locked [of D E m1] by (simp add: dv)
  consider
      (apply_failed) "r1 \<noteq> 0"
    | (phy_failed) "r1 = 0" "fst (streamon_phy_start D E m1) \<noteq> 0"
    | (timeout) "r1 = 0" "fst (streamon_phy_start D E m1) = 0" "fst (streamon_wait D E m1) = 0"
    | (mhl_failed) "r1 = 0" "fst (streamon_phy_start D E m1) = 0"
        "fst (streamon_wait D E m1) \<noteq> 0"
        "mhl_sd (hdev m) \<noteq> None" "fst (streamon_mhl_start D E m1) \<noteq> 0"
    | (started) "r1 = 0" "fst (streamon_phy_start D E m1) = 0"
        "fst (streamon_wait D E m1) \<noteq> 0"
        "mhl_sd (hdev m) = None \<or> fst (streamon_mhl_start D E m1) = 0"
    by atomize_elim auto
  then have "(if r1 = 0 \<and> fst (streamon_phy_start D E m1) = 0 \<and> fst (streamon_wait D E m1) \<noteq> 0 \<and>
         (mhl_sd (hdev m) = None \<or> fst (streamon_mhl_start D E m1) = 0)
      then
        ret = 0 \<and>
        (\<exists>h. io (snd (streamon_wait D E m1)) =
                h @ [Readl (regs (hdev m) + macro D ''HDMI_PHY_STATUS'')] \<and>
              readl_val E h (regs (hdev m) + macro D ''HDMI_PHY_STATUS'')
                AND macro D ''HDMI_PHY_STATUS_READY'' \<noteq> 0) \<and>
        list_all ?P (new_io m1 (snd (streamon_mhl_start D E m1))) \<and>
        io m2 =
          (let s = sclk_hdmi (res (hdev m));
               c0 = regs (hdev m) + macro D ''HDMI_CON_0'';
               tg = regs (hdev m) + macro D ''HDMI_TG_CMD'';
               l1 = io (snd (streamon_mhl_start D E m1)) @
                    [Clk_disable s, Clk_set_parent s (sclk_hdmiphy (res (hdev m))),
                     Clk_enable s];
               l2 = l1 @ [Readl c0,
                          Writel c0 (macro D ''HDMI_EN'' OR
                                     (readl_val E l1 c0 AND NOT (macro D ''HDMI_EN'')))];
               l3 = l2 @ [Readl tg,
                          Writel tg (macro D ''HDMI_TG_EN'' OR
                                     (readl_val E l2 tg AND NOT (macro D ''HDMI_TG_EN'')))]
           in l3 @ [Dumpregs ''streamon''])
      else list_all ?P (new_io m1 m2)) \<and>
     (r1 = 0 \<and> fst (streamon_phy_start D E m1) = 0 \<and> fst (streamon_wait D E m1) \<noteq> 0 \<and>
      mhl_sd (hdev m) \<noteq> None \<and> fst (streamon_mhl_start D E m1) \<noteq> 0 \<longrightarrow>
        ret = - EIO D \<and>
        io m2 =
          io (snd (streamon_mhl_start D E m1)) @
          (case phy_sd (hdev m) of None \<Rightarrow> [] | Some s \<Rightarrow> [Subdev_call s (Video_s_stream 0)]) @
          [Dumpregs ''mhl - s_stream''])"
  proof cases
    case apply_failed
    with assms s have "m2 = m1" by simp
    with apply_failed show ?thesis by (simp add: new_io_def)
  next
    case phy_failed
    with assms s have "m2 = snd (streamon_phy_start D E m1)" by (auto simp: prod_eq_iff)
    with phy_failed adds_only_new_io [OF a_start] show ?thesis by simp
  next
    case timeout
    with assms s have "m2 = hdmi_dumpregs ''hdmiphy - s_stream''
                         (streamon_phy_stop D E (snd (streamon_wait D E m1)))" by simp
    with timeout adds_only_new_io [OF a_to] show ?thesis by simp
  next
    case mhl_failed
    with assms s dv have m2: "m2 = hdmi_dumpregs ''mhl - s_stream''
                         (streamon_phy_stop D E (snd (streamon_mhl_start D E m1)))"
      and r: "ret = - EIO D" by simp_all
    from mhl_failed m2 r adds_only_new_io [OF a_mf] show ?thesis
      by (auto simp: io_streamon_phy_stop dv)
  next
    case started
    with assms s dv have m2: "m2 = streamon_enable D E (snd (streamon_mhl_start D E m1))"
      and r: "ret = 0" by auto
    from started m2 r adds_only_new_io [OF a_mhl] locked show ?thesis
      by (auto simp: io_streamon_enable_explicit dv Let_def)
  qed
  with ca nc show ?thesis by blast
qed

theorem hdmi_streamon_order_witness:
  "hdmi_streamon sample_decls (sample_env 1) sample_applied =
     Inr (0, streamon_enable sample_decls (sample_env 1)
               (snd (streamon_mhl_start sample_decls (sample_env 1) sample_applied))) \<and>
   new_io sample_applied
     (streamon_enable sample_decls (sample_env 1)
        (snd (streamon_mhl_start sample_decls (sample_env 1) sample_applied))) =
     [Subdev_call 1 (Video_s_stream 1), Readl 0x10014, Subdev_call 2 (Video_s_stream 1),
      Clk_disable 11, Clk_set_parent 11 13, Clk_enable 11,
      Readl 0x10000, Writel 0x10000 1, Readl 0x50000, Writel 0x50000 1,
      Dumpregs ''streamon''] \<and>
   hdmi_streamon sample_decls (sample_env_mhl_refusing 1) sample_applied =
     Inr (- 5, hdmi_dumpregs ''mhl - s_stream''
                 (streamon_phy_stop sample_decls (sample_env_mhl_refusing 1)
                    (snd (streamon_mhl_start sample_decls (sample_env_mhl_refusing 1)
                            sample_applied)))) \<and>
   new_io sample_applied
     (hdmi_dumpregs ''mhl - s_stream''
        (streamon_phy_stop sample_decls (sample_env_mhl_refusing 1)
           (snd (streamon_mhl_start sample_decls (sample_env_mhl_refusing 1)
                   sample_applied)))) =
     [Subdev_call 1 (Video_s_stream 1), Readl 0x10014, Subdev_call 2 (Video_s_stream 1),
      Subdev_call 1 (Video_s_stream 0), Dumpregs ''mhl - s_stream'']"
  using hdmi_streamon_order [OF hdmi_streamon_sample_started]
    hdmi_streamon_order [OF hdmi_streamon_sample_mhl_refused]
    hdmi_streamon_sample_started hdmi_streamon_sample_mhl_refused
  by (simp add: new_io_def io_streamon_enable_explicit io_streamon_phy_stop Let_def)

section \<open>Suspend and resume\<close>

text \<open>
  Claim C9, as amended. For every state, the suspend handler leaves the dirty flag set, and
  the resume handler leaves the dirty flag as it finds it. Hence after a suspend followed
  by a resume the flag is set, and a start-stream that follows does not skip mode-apply:
  mode-apply is not the call that returns success and leaves the machine as it is, and
  start-stream returns when a configuration is set. What it adds to the log is written
  out event by event, each masked write with the value the environment gave to its read:

  \<^item> the PHY reset (set and clear \<^verbatim>\<open>HDMI_PHY_SW_RSTOUT\<close>, ten milliseconds after each) and
    the call that hands the current timings to the PHY, in every case;

  \<^item> when the PHY refuses, nothing more: start-stream returns the answer of the PHY and
    the flag stays set;

  \<^item> when the PHY accepts, the whole register sequence of mode-apply: the core reset, the
    four masked writes and three blue-screen bytes of \<^verbatim>\<open>hdmi_reg_init\<close>, and every byte
    of the core and timing-generator registers that \<^verbatim>\<open>hdmi_timing_apply\<close> writes for the
    current configuration, interlaced or progressive; the flag is then clear, and the rest
    of start-stream follows in the log.
\<close>

theorem suspend_resume_reapplies:
  "cur_conf_dirty (hdev (snd (hdmi_runtime_suspend D E m))) = 1 \<and>
   cur_conf_dirty (hdev (snd (hdmi_runtime_resume D E m))) = cur_conf_dirty (hdev m) \<and>
   (let ms = snd (hdmi_runtime_suspend D E m);
        mr = snd (hdmi_runtime_resume D E1 ms);
        base = regs (hdev m);
        wb = (\<lambda>r v. [Writeb (base + macro D r) v]);
        wb2 = (\<lambda>r v. [Writeb (base + macro D r + 4) (ucast (drop_bit 8 v)),
                       Writeb (base + macro D r) (ucast v)]);
        wb3 = (\<lambda>r v. [Writeb (base + macro D r + 8) (ucast (drop_bit 16 v)),
                       Writeb (base + macro D r + 4) (ucast (drop_bit 8 v)),
                       Writeb (base + macro D r) (ucast v)]);
        wm = (\<lambda>l r v k.
                [Readl (base + macro D r),
                 Writel (base + macro D r)
                   ((v AND k) OR (readl_val E2 l (base + macro D r) AND NOT k))]);
        l1 = io mr @ wm (io mr) ''HDMI_PHY_RSTOUT'' (NOT 0) (macro D ''HDMI_PHY_SW_RSTOUT'')
               @ [Mdelay 10];
        l2 = l1 @ wm l1 ''HDMI_PHY_RSTOUT'' 0 (macro D ''HDMI_PHY_SW_RSTOUT'') @ [Mdelay 10];
        l3 = l2 @ (case phy_sd (hdev m) of
                     None \<Rightarrow> []
                   | Some p \<Rightarrow> [Subdev_call p (Video_s_dv_timings (cur_timings (hdev m)))]);
        phy_ret = (case phy_sd (hdev m) of
                     None \<Rightarrow> - ENODEV D
                   | Some p \<Rightarrow> subdev_ret E2 l2 p (Video_s_dv_timings (cur_timings (hdev m))))
    in cur_conf_dirty (hdev mr) = 1 \<and>
       hdmi_conf_apply D E2 mr \<noteq> Inr (0, mr) \<and>
       (cur_conf (hdev m) \<noteq> None \<longrightarrow> (\<exists>ret m2. hdmi_streamon D E2 mr = Inr (ret, m2))) \<and>
       (\<forall>ret m2. hdmi_streamon D E2 mr = Inr (ret, m2) \<longrightarrow>
          (phy_ret \<noteq> 0 \<longrightarrow>
             ret = phy_ret \<and> io m2 = l3 \<and> cur_conf_dirty (hdev m2) = 1) \<and>
          (phy_ret = 0 \<longrightarrow>
             (case cur_conf (hdev m) of
                None \<Rightarrow> False
              | Some t \<Rightarrow>
                  (let l4 = l3 @ wm l3 ''HDMI_CORE_RSTOUT'' 0 (macro D ''HDMI_CORE_SW_RSTOUT'')
                              @ [Mdelay 10];
                       l5 = l4 @ wm l4 ''HDMI_CORE_RSTOUT'' (NOT 0)
                                   (macro D ''HDMI_CORE_SW_RSTOUT'')
                              @ [Mdelay 10];
                       l6 = l5 @ wm l5 ''HDMI_INTC_CON'' (NOT 0)
                                   (macro D ''HDMI_INTC_EN_GLOBAL''
                                      OR macro D ''HDMI_INTC_EN_HPD_PLUG''
                                      OR macro D ''HDMI_INTC_EN_HPD_UNPLUG'');
                       l7 = l6 @ wm l6 ''HDMI_MODE_SEL'' (macro D ''HDMI_MODE_DVI_EN'')
                                   (macro D ''HDMI_MODE_MASK'');
                       l8 = l7 @ wm l7 ''HDMI_CON_2'' (NOT 0)
                                   (macro D ''HDMI_DVI_PERAMBLE_EN''
                                      OR macro D ''HDMI_DVI_BAND_EN'');
                       l9 = l8 @ wm l8 ''HDMI_CON_0'' 0 (macro D ''HDMI_BLUE_SCR_EN'');
                       l10 = l9
                         @ wb ''HDMI_BLUE_SCREEN_0'' 0x12
                         @ wb ''HDMI_BLUE_SCREEN_1'' 0x34
                         @ wb ''HDMI_BLUE_SCREEN_2'' 0x56
                         @ wb2 ''HDMI_H_BLANK_0'' (beg (hact t))
                         @ wb3 ''HDMI_H_SYNC_GEN_0''
                             (push_bit 20 (hsyn_pol t) OR push_bit 10 (endp (hsyn t))
                                OR beg (hsyn t))
                         @ wb ''HDMI_VSYNC_POL'' (ucast (vsyn_pol t))
                         @ wb3 ''HDMI_V_BLANK_0''
                             (push_bit 11 (beg (vact_0 t)) OR endp (vact_0 t))
                         @ wb3 ''HDMI_V_SYNC_GEN_1_0''
                             (push_bit 12 (beg (vsyn_0 t)) OR endp (vsyn_0 t))
                         @ (if interlaced t \<noteq> 0 then
                              wb ''HDMI_INT_PRO_MODE'' 1
                              @ wb3 ''HDMI_H_V_LINE_0''
                                  (push_bit 12 (endp (hact t)) OR endp (vact_1 t))
                              @ wb3 ''HDMI_V_BLANK_F_0''
                                  (push_bit 11 (endp (vact_1 t)) OR beg (vact_1 t))
                              @ wb3 ''HDMI_V_SYNC_GEN_2_0''
                                  (push_bit 12 (beg (vsyn_1 t)) OR endp (vsyn_1 t))
                              @ wb3 ''HDMI_V_SYNC_GEN_3_0''
                                  (push_bit 12 (beg (hsyn t) + vsyn_off t)
                                     OR (beg (hsyn t) + vsyn_off t))
                            else
                              wb ''HDMI_INT_PRO_MODE'' 0
                              @ wb3 ''HDMI_H_V_LINE_0''
                                  (push_bit 12 (endp (hact t)) OR endp (vact_0 t)))
                         @ wb2 ''HDMI_TG_H_FSZ_L'' (endp (hact t))
                         @ wb2 ''HDMI_TG_HACT_ST_L'' (beg (hact t))
                         @ wb2 ''HDMI_TG_HACT_SZ_L'' (endp (hact t) - beg (hact t))
                         @ wb2 ''HDMI_TG_VSYNC_L'' (beg (vsyn_0 t))
                         @ wb2 ''HDMI_TG_VACT_ST_L'' (beg (vact_0 t))
                         @ wb2 ''HDMI_TG_VACT_SZ_L'' (endp (vact_0 t) - beg (vact_0 t))
                         @ wb2 ''HDMI_TG_VSYNC_TOP_HDMI_L'' (beg (vsyn_0 t))
                         @ wb2 ''HDMI_TG_FIELD_TOP_HDMI_L'' (beg (vsyn_0 t));
                       l11 = l10 @ wm l10 ''HDMI_TG_CMD''
                                     (if interlaced t \<noteq> 0 then NOT 0 else 0)
                                     (macro D ''HDMI_TG_FIELD_EN'');
                       l12 = l11
                         @ (if interlaced t \<noteq> 0 then
                              wb2 ''HDMI_TG_V_FSZ_L'' (endp (vact_1 t))
                              @ wb2 ''HDMI_TG_VSYNC2_L'' (beg (vsyn_1 t))
                              @ wb2 ''HDMI_TG_FIELD_CHG_L'' (endp (vact_0 t))
                              @ wb2 ''HDMI_TG_VACT_ST2_L'' (beg (vact_1 t))
                              @ wb2 ''HDMI_TG_VSYNC_BOT_HDMI_L'' (beg (vsyn_1 t))
                              @ wb2 ''HDMI_TG_FIELD_BOT_HDMI_L'' (beg (vsyn_1 t))
                            else
                              wb2 ''HDMI_TG_V_FSZ_L'' (endp (vact_0 t)))
                   in cur_conf_dirty (hdev m2) = 0 \<and> (\<exists>xs. io m2 = l12 @ xs))))))"
proof -
  let ?ms = "snd (hdmi_runtime_suspend D E m)"
  let ?mr = "snd (hdmi_runtime_resume D E1 ?ms)"
  have d: "cur_conf_dirty (hdev ?mr) \<noteq> 0" by simp
  have ns: "hdmi_conf_apply D E2 ?mr \<noteq> Inr (0, ?mr)"
    by (rule hdmi_conf_apply_dirty_not_skipped) (simp add: d)
  note F = hdmi_streamon_dirty_cases [OF d]
  note logs = fst_conf_apply_phy_timings io_conf_apply_phy_timings io_conf_apply_phy_reset
  show ?thesis
    apply (intro conjI)
      apply simp
     apply simp
    apply (rule Let_unfoldI)+
    apply (intro conjI allI impI)
    subgoal by simp
    subgoal using ns .
    subgoal by (rule hdmi_streamon_returns) simp
    subgoal for ret m2 using F [of D E2 ret m2] by (simp add: logs split: option.splits)
    subgoal for ret m2 using F [of D E2 ret m2] by (simp add: logs split: option.splits)
    subgoal for ret m2 using F [of D E2 ret m2] by (auto simp add: logs split: option.splits)
    subgoal premises prems for ret m2
    proof -
      from F [OF prems(1)] prems(2) obtain t xs where t: "cur_conf (hdev m) = Some t"
        and x: "io m2 = io (conf_apply_programmed D E2 t ?mr) @ xs"
        and h: "hdev m2 = (hdev ?mr)\<lparr>cur_conf_dirty := 0\<rparr>"
        by (auto simp add: logs split: option.splits)
      show ?thesis
        unfolding t option.case
        apply (rule Let_bindI)+
        apply (rule conjI)
         apply (simp add: h)
        apply (rule exI [of _ xs])
        apply (cases "interlaced t = 0")
         apply (simp_all add: x logs conf_apply_programmed_def conf_apply_core_reset_def
            conf_apply_phy_timings_def hdmi_reg_init_def hdmi_timing_apply_def Let_def
            io_hdmi_writebn_2 io_hdmi_writebn_3 io_hdmi_writeb io_hdmi_write_mask
            io_v4l2_subdev_call)
        done
    qed
    done
qed

theorem suspend_resume_reapplies_witness:
  "cur_conf_dirty (hdev sample_suspended) = 1 \<and>
   fst (hdmi_runtime_resume sample_decls (sample_env 0) sample_suspended) = 0 \<and>
   cur_conf_dirty (hdev sample_resumed) = 1 \<and>
   (case hdmi_streamon sample_decls (sample_env 1) sample_resumed of
      Inl f \<Rightarrow> False
    | Inr (ret, m2) \<Rightarrow>
        ret = 0 \<and> cur_conf_dirty (hdev m2) = 0 \<and>
        take 60 (new_io sample_resumed m2) =
          [Readl 0x14, Writel 0x14 1, Mdelay 10, Readl 0x14, Writel 0x14 0, Mdelay 10,
           Subdev_call 1 (Video_s_dv_timings \<lparr>bt_flags = 1, bt_rest = ''720X480P59_94''\<rparr>),
           Readl 0x20, Writel 0x20 0, Mdelay 10, Readl 0x20, Writel 0x20 1, Mdelay 10,
           Readl 0x0, Writel 0x0 0x4D, Readl 0x10040, Writel 0x10040 1, Readl 0x10008,
           Writel 0x10008 0x23, Readl 0x10000, Writel 0x10000 1, Writeb 0x10050 0x12,
           Writeb 0x10054 0x34, Writeb 0x10058 0x56, Writeb 0x100a4 0x0, Writeb 0x100a0 0x8a,
           Writeb 0x10128 0x11, Writeb 0x10124 0x38, Writeb 0x10120 0x10, Writeb 0x100e4 0x1,
           Writeb 0x100b8 0x1, Writeb 0x100b4 0x6a, Writeb 0x100b0 0xd, Writeb 0x10138 0x0,
           Writeb 0x10134 0x90, Writeb 0x10130 0xf, Writeb 0x100e8 0x0, Writeb 0x100c8 0x35,
           Writeb 0x100c4 0xa2, Writeb 0x100c0 0xd, Writeb 0x5001c 0x3, Writeb 0x50018 0x5a,
           Writeb 0x50024 0x0, Writeb 0x50020 0x8a, Writeb 0x5002c 0x2, Writeb 0x50028 0xd0,
           Writeb 0x5003c 0x0, Writeb 0x50038 0x9, Writeb 0x5004c 0x0, Writeb 0x50048 0x2d,
           Writeb 0x50054 0x1, Writeb 0x50050 0xe0, Writeb 0x5007c 0x0, Writeb 0x50078 0x9,
           Writeb 0x5008c 0x0, Writeb 0x50088 0x9, Readl 0x50000, Writel 0x50000 1,
           Writeb 0x50034 0x2, Writeb 0x50030 0xd])"
  using suspend_resume_reapplies
      [where D = sample_decls and E = "sample_env 0" and ?E1.0 = "sample_env 0"
         and ?E2.0 = "sample_env 1" and m = sample_applied]
    hdmi_streamon_sample_resumed hdmi_runtime_resume_sample
  by (auto simp add: Let_def new_io_def hdmi_timings_480p_def sample_macro_apply_regs
      sample_macro_timing_regs sample_macro_sizes sample_dev_timings
      simp flip: sample_suspended_def sample_resumed_def)

text \<open>
  When the PHY refuses the timings, the start-stream after a suspend and a resume does not
  run the whole register sequence of mode-apply: on the sample platform with a refusing
  PHY it returns the refusal, and all it adds to the log is the PHY reset and the call to
  the PHY. No core or timing-generator register is written.
\<close>

theorem suspend_resume_phy_refuses_counterexample:
  "cur_conf_dirty (hdev sample_suspended) = 1 \<and>
   fst (hdmi_runtime_resume sample_decls (sample_env 0) sample_suspended) = 0 \<and>
   cur_conf_dirty (hdev sample_resumed) = 1 \<and>
   (case hdmi_streamon sample_decls sample_env_refusing sample_resumed of
      Inl f \<Rightarrow> False
    | Inr (ret, m2) \<Rightarrow>
        ret = - 22 \<and> cur_conf_dirty (hdev m2) = 1 \<and>
        new_io sample_resumed m2 =
          [Readl 0x14, Writel 0x14 1, Mdelay 10, Readl 0x14, Writel 0x14 0, Mdelay 10,
           Subdev_call 1 (Video_s_dv_timings \<lparr>bt_flags = 1, bt_rest = ''720X480P59_94''\<rparr>)])"
  using hdmi_runtime_resume_sample
  by (simp add: hdmi_streamon_sample_refused new_io_def io_conf_apply_phy_timings
      io_conf_apply_phy_reset sample_macro_apply_regs sample_env_refusing_reads
      sample_dev_timings)

section \<open>The register programmer\<close>

text \<open>
  Claim C1, as amended. For all timings, \<^verbatim>\<open>hdmi_timing_apply\<close> writes to the byte
  registers \<^verbatim>\<open>HDMI_TG_HACT_SZ_H\<close> (the low register plus 4) and \<^verbatim>\<open>HDMI_TG_HACT_SZ_L\<close> the
  second and the lowest byte of the 32-bit difference \<^verbatim>\<open>hact.end - hact.beg\<close>, and to
  \<^verbatim>\<open>HDMI_TG_VACT_SZ_H\<close> and \<^verbatim>\<open>HDMI_TG_VACT_SZ_L\<close> those of \<^verbatim>\<open>vact[0].end - vact[0].beg\<close>:
  the register pair holds the low 16 bits of the difference, which is the difference
  itself whenever that is below 65536. When the timings are interlaced it writes to the
  three byte registers at \<^verbatim>\<open>HDMI_V_SYNC_GEN_3_0\<close> the low three bytes of
  \<^verbatim>\<open>(v << 12) | v\<close>, where \<^verbatim>\<open>v = hsyn.beg + vsyn_off\<close>: both twelve-bit halves of the
  24-bit value hold \<^verbatim>\<open>v\<close> whenever \<^verbatim>\<open>v\<close> is below 4096.
\<close>

theorem hdmi_timing_apply_sizes:
  "let new = new_io m (hdmi_timing_apply D E t m);
       hsz = endp (hact t) - beg (hact t);
       vsz = endp (vact_0 t) - beg (vact_0 t);
       vt = beg (hsyn t) + vsyn_off t;
       tr = push_bit 12 vt OR vt;
       base = regs (hdev m)
   in Writeb (base + macro D ''HDMI_TG_HACT_SZ_L'' + 4) (ucast (drop_bit 8 hsz)) \<in> set new \<and>
      Writeb (base + macro D ''HDMI_TG_HACT_SZ_L'') (ucast hsz) \<in> set new \<and>
      reg16 (ucast (drop_bit 8 hsz)) (ucast hsz) = take_bit 16 hsz \<and>
      (hsz < 0x10000 \<longrightarrow> reg16 (ucast (drop_bit 8 hsz)) (ucast hsz) = hsz) \<and>
      Writeb (base + macro D ''HDMI_TG_VACT_SZ_L'' + 4) (ucast (drop_bit 8 vsz)) \<in> set new \<and>
      Writeb (base + macro D ''HDMI_TG_VACT_SZ_L'') (ucast vsz) \<in> set new \<and>
      reg16 (ucast (drop_bit 8 vsz)) (ucast vsz) = take_bit 16 vsz \<and>
      (vsz < 0x10000 \<longrightarrow> reg16 (ucast (drop_bit 8 vsz)) (ucast vsz) = vsz) \<and>
      (interlaced t \<noteq> 0 \<longrightarrow>
         Writeb (base + macro D ''HDMI_V_SYNC_GEN_3_0'' + 8) (ucast (drop_bit 16 tr)) \<in> set new \<and>
         Writeb (base + macro D ''HDMI_V_SYNC_GEN_3_0'' + 4) (ucast (drop_bit 8 tr)) \<in> set new \<and>
         Writeb (base + macro D ''HDMI_V_SYNC_GEN_3_0'') (ucast tr) \<in> set new \<and>
         reg24 (ucast (drop_bit 16 tr)) (ucast (drop_bit 8 tr)) (ucast tr) = take_bit 24 tr \<and>
         (vt < 0x1000 \<longrightarrow>
            low12 (reg24 (ucast (drop_bit 16 tr)) (ucast (drop_bit 8 tr)) (ucast tr)) = vt \<and>
            high12 (reg24 (ucast (drop_bit 16 tr)) (ucast (drop_bit 8 tr)) (ucast tr)) = vt))"
  unfolding Let_def
  by (intro conjI impI)
    (simp_all only: new_io_hdmi_timing_apply_tg_sizes new_io_hdmi_timing_apply_vsyn_trans
      reg16_bytes reg24_bytes take_bit_16_small vsyn_trans_halves simp_thms)

theorem hdmi_timing_apply_sizes_witness:
  "endp (hact example_timings) - beg (hact example_timings) = 800 \<and>
   endp (vact_0 example_timings) - beg (vact_0 example_timings) = 500 \<and>
   interlaced example_timings \<noteq> 0 \<and>
   beg (hsyn example_timings) + vsyn_off example_timings = 1116 \<and>
   Writeb 0x5002C 0x03 \<in> set (new_io sample_machine
     (hdmi_timing_apply sample_decls (sample_env 0) example_timings sample_machine)) \<and>
   Writeb 0x50028 0x20 \<in> set (new_io sample_machine
     (hdmi_timing_apply sample_decls (sample_env 0) example_timings sample_machine)) \<and>
   reg16 0x03 0x20 = 800 \<and>
   Writeb 0x50054 0x01 \<in> set (new_io sample_machine
     (hdmi_timing_apply sample_decls (sample_env 0) example_timings sample_machine)) \<and>
   Writeb 0x50050 0xF4 \<in> set (new_io sample_machine
     (hdmi_timing_apply sample_decls (sample_env 0) example_timings sample_machine)) \<and>
   reg16 0x01 0xF4 = 500 \<and>
   Writeb 0x10158 0x45 \<in> set (new_io sample_machine
     (hdmi_timing_apply sample_decls (sample_env 0) example_timings sample_machine)) \<and>
   Writeb 0x10154 0xC4 \<in> set (new_io sample_machine
     (hdmi_timing_apply sample_decls (sample_env 0) example_timings sample_machine)) \<and>
   Writeb 0x10150 0x5C \<in> set (new_io sample_machine
     (hdmi_timing_apply sample_decls (sample_env 0) example_timings sample_machine)) \<and>
   low12 (reg24 0x45 0xC4 0x5C) = 1116 \<and>
   high12 (reg24 0x45 0xC4 0x5C) = 1116"
proof -
  have b: "(800 :: u8) = 0x20" "(500 :: u8) = 0xF4" "(17860 :: u8) = 0xC4"
    "(4572252 :: u8) = 0x5C"
    by simp_all
  have r: "reg16 0x03 0x20 = 800" "reg16 0x01 0xF4 = 500"
    "low12 (reg24 0x45 0xC4 0x5C) = 1116" "high12 (reg24 0x45 0xC4 0x5C) = 1116"
    by (simp_all add: reg16_def reg24_def low12_def high12_def)
  show ?thesis
    using hdmi_timing_apply_sizes
        [where m = sample_machine and D = sample_decls and E = "sample_env 0"
           and t = example_timings]
    by (simp add: Let_def example_timings_simps sample_macro_sizes b r low12_def high12_def)
qed

text \<open>
  Without the two bounds the registers do not hold these values. With a horizontal active
  window from 0 to 65536 both size bytes written are 0; with a transition value of 4096
  the bytes written are 0, 16, 0, so that the low half of the 24-bit value is 0 and the
  high half is 1.
\<close>

theorem hdmi_timing_apply_sizes_counterexample:
  "endp (hact oversize_timings) - beg (hact oversize_timings) = 0x10000 \<and>
   written (regs (hdev sample_machine) + macro sample_decls ''HDMI_TG_HACT_SZ_L'' + 4)
     (new_io sample_machine
        (hdmi_timing_apply sample_decls (sample_env 0) oversize_timings sample_machine)) = [0] \<and>
   written (regs (hdev sample_machine) + macro sample_decls ''HDMI_TG_HACT_SZ_L'')
     (new_io sample_machine
        (hdmi_timing_apply sample_decls (sample_env 0) oversize_timings sample_machine)) = [0] \<and>
   reg16 0 0 = 0 \<and>
   interlaced oversize_timings = 1 \<and>
   beg (hsyn oversize_timings) + vsyn_off oversize_timings = 0x1000 \<and>
   written (regs (hdev sample_machine) + macro sample_decls ''HDMI_V_SYNC_GEN_3_0'' + 8)
     (new_io sample_machine
        (hdmi_timing_apply sample_decls (sample_env 0) oversize_timings sample_machine)) = [0] \<and>
   written (regs (hdev sample_machine) + macro sample_decls ''HDMI_V_SYNC_GEN_3_0'' + 4)
     (new_io sample_machine
        (hdmi_timing_apply sample_decls (sample_env 0) oversize_timings sample_machine)) = [0x10] \<and>
   written (regs (hdev sample_machine) + macro sample_decls ''HDMI_V_SYNC_GEN_3_0'')
     (new_io sample_machine
        (hdmi_timing_apply sample_decls (sample_env 0) oversize_timings sample_machine)) = [0] \<and>
   low12 (reg24 0 0x10 0) = 0 \<and>
   high12 (reg24 0 0x10 0) = 1 \<and>
   reg16 0 0 \<noteq> endp (hact oversize_timings) - beg (hact oversize_timings) \<and>
   low12 (reg24 0 0x10 0) \<noteq> beg (hsyn oversize_timings) + vsyn_off oversize_timings \<and>
   high12 (reg24 0 0x10 0) \<noteq> low12 (reg24 0 0x10 0)"
  by (simp add: written_oversize sample_macro_sizes oversize_timings_simps reg16_def reg24_def
      low12_def high12_def)

section \<open>Who writes the mode configuration\<close>

text \<open>
  Claim C10, as amended. Of the entry points of the device, only these change the current
  configuration or the dirty flag: set-timings, which sets the configuration and marks
  it dirty; start-stream, through its call of mode-apply, which clears the dirty flag
  and leaves the configuration; and the suspend handler, which marks the configuration
  dirty and leaves it otherwise, whether it runs as the runtime-PM callback or from
  inside power-off, when the runtime-PM core invokes it there. Every other call (power-on,
  get-timings, get-format, stop-stream, enumerate-timings, timings-capabilities, the
  resume handler, the interrupt handler) leaves both as they were.
\<close>

theorem mode_config_writers:
  assumes "hdmi_call D E c m = Some m1"
  shows "(cur_conf (hdev m1) \<noteq> cur_conf (hdev m) \<or>
          cur_conf_dirty (hdev m1) \<noteq> cur_conf_dirty (hdev m) \<longrightarrow>
            (\<exists>t. c = S_dv_timings t \<and> cur_conf_dirty (hdev m1) = 1) \<or>
            (\<exists>en r ma. c = S_stream en \<and> en \<noteq> 0 \<and> hdmi_conf_apply D E m = Inr (r, ma) \<and>
               hdev m1 = hdev ma \<and> cur_conf (hdev m1) = cur_conf (hdev m) \<and>
               cur_conf_dirty (hdev m1) = 0) \<or>
            ((c = Runtime_suspend \<or> c = S_power 0 \<and> pm_core E (io m) = Pm_callback) \<and>
               cur_conf (hdev m1) = cur_conf (hdev m) \<and> cur_conf_dirty (hdev m1) = 1))"
proof (cases c)
  case (S_power on)
  with assms show ?thesis
    by (auto simp: hdev_hdmi_s_power split: if_splits)
next
  case (S_dv_timings t)
  with assms hdev_hdmi_s_dv_timings [of D t m] show ?thesis
    by auto
next
  case (S_stream en)
  show ?thesis
  proof (cases "en = 0")
    case True
    with S_stream assms have "m1 = snd (hdmi_streamoff D E m)"
      by (auto simp: hdmi_s_stream_def split: prod.splits)
    then show ?thesis by simp
  next
    case False
    with S_stream assms obtain ret where s: "hdmi_streamon D E m = Inr (ret, m1)"
      by (auto simp: hdmi_s_stream_def split: sum.splits)
    from hdmi_streamon_extends [OF s] obtain r1 ma where
      ca: "hdmi_conf_apply D E m = Inr (r1, ma)" and h: "hdev m1 = hdev ma"
      by blast
    from hdmi_conf_apply_devD [OF ca] h S_stream False ca show ?thesis
      by auto
  qed
qed (use assms in auto)

theorem mode_config_writers_witness:
  "hdmi_call sample_decls (sample_env 0) (Runtime_suspend :: (string, unit) hdmi_entry)
     sample_applied = Some sample_suspended \<and>
   cur_conf_dirty (hdev sample_applied) = 0 \<and>
   cur_conf_dirty (hdev sample_suspended) = 1 \<and>
   cur_conf (hdev sample_suspended) = cur_conf (hdev sample_applied)"
  using mode_config_writers [OF hdmi_call_sample_suspend] hdmi_call_sample_suspend
  by simp

text \<open>
  The suspend handler does write the dirty flag: on the applied sample machine, whose
  flag is clear, it leaves the flag set.
\<close>

theorem suspend_writes_dirty_counterexample:
  "hdmi_call sample_decls (sample_env 0) (Runtime_suspend :: (string, unit) hdmi_entry)
     sample_applied = Some sample_suspended \<and>
   cur_conf_dirty (hdev sample_applied) = 0 \<and>
   cur_conf_dirty (hdev sample_suspended) = 1"
  using hdmi_call_sample_suspend by simp

end
